theory Spec2Isabelle
  imports Complex_Main
begin

section \<open>Label-grid rasterisation of create\_dataset\_from\_nusc.py\<close>

text \<open>
  The development embeds \<^verbatim>\<open>scripts/create_dataset/create_dataset_from_nusc.py\<close>:
  the nested helpers of \<^verbatim>\<open>generate_out_feature\<close> (\<^verbatim>\<open>points_in_box\<close>,
  \<^verbatim>\<open>points_in_box2d\<close>, \<^verbatim>\<open>F2I\<close>, \<^verbatim>\<open>Pixel2pc\<close>), the function itself, and
  the part of \<^verbatim>\<open>create_dataset\<close> that checks the configuration, labels each box
  and calls the rasteriser.

  Numbers: Python's \<^verbatim>\<open>int\<close> is \<^typ>\<open>int\<close>. The source computes in IEEE floating
  point (\<^verbatim>\<open>float64\<close>, and \<^verbatim>\<open>float32\<close> for the arrays); here every float is an
  exact \<^typ>\<open>real\<close> and \<^verbatim>\<open>astype(np.float32)\<close> is the identity, so rounding, overflow
  and NaN are outside the model. A division raises \<^verbatim>\<open>ZeroDivisionError\<close> on a zero
  divisor, as Python's float division does.
\<close>

subsection \<open>Errors and data\<close>

datatype error =
    Exception string
  | IndexError
  | ZeroDivisionError
  | ValueError

type_synonym vec2 = "real \<times> real"
type_synonym vec3 = "real \<times> real \<times> real"

text \<open>One column of \<^verbatim>\<open>pc_points\<close>: x, y, z, intensity.\<close>
type_synonym point4 = "real \<times> real \<times> real \<times> real"

text \<open>\<^verbatim>\<open>box_corners\<close> is a 3 x 8 array; \<^verbatim>\<open>corners[:, k]\<close> is the field \<open>corner\<close>k.\<close>
record corner_array =
  corner0 :: vec3
  corner1 :: vec3
  corner2 :: vec3
  corner3 :: vec3
  corner4 :: vec3
  corner5 :: vec3
  corner6 :: vec3
  corner7 :: vec3

text \<open>\<^verbatim>\<open>box2d\<close> is a 4 x 2 array; \<^verbatim>\<open>box2d[k]\<close> is the field \<open>row\<close>k.\<close>
record quad =
  row0 :: vec2
  row1 :: vec2
  row2 :: vec2
  row3 :: vec2

text \<open>
  What \<^verbatim>\<open>create_dataset\<close> reads of a nuScenes \<^verbatim>\<open>Box\<close>: \<^verbatim>\<open>box.name\<close>,
  \<^verbatim>\<open>box.corners()\<close> and the yaw of \<^verbatim>\<open>box.orientation.yaw_pitch_roll\<close>.
\<close>
record box =
  name :: string
  corners :: corner_array
  orientation_yaw :: real

text \<open>
  \<^verbatim>\<open>out_feature\<close> is a dense (size, size, 8) array. It is modelled as a store from the
  index triple to the value; the source only indexes it under the guard
  \<^verbatim>\<open>0 <= i and i < size and 0 <= j and j < size\<close> with a literal channel 0..7.
\<close>
type_synonym grid = "int \<times> int \<times> nat \<Rightarrow> real"

subsection \<open>Vector helpers (numpy arithmetic on small arrays)\<close>

definition sub3 :: "vec3 \<Rightarrow> vec3 \<Rightarrow> vec3" where
  "sub3 a b = (case a of (ax, ay, az) \<Rightarrow> case b of (bx, by, bz) \<Rightarrow> (ax - bx, ay - by, az - bz))"

definition dot3 :: "vec3 \<Rightarrow> vec3 \<Rightarrow> real" where
  "dot3 a b = (case a of (ax, ay, az) \<Rightarrow> case b of (bx, by, bz) \<Rightarrow> ax * bx + ay * by + az * bz)"

definition sub2 :: "vec2 \<Rightarrow> vec2 \<Rightarrow> vec2" where
  "sub2 a b = (case a of (ax, ay) \<Rightarrow> case b of (bx, by) \<Rightarrow> (ax - bx, ay - by))"

definition dot2 :: "vec2 \<Rightarrow> vec2 \<Rightarrow> real" where
  "dot2 a b = (case a of (ax, ay) \<Rightarrow> case b of (bx, by) \<Rightarrow> ax * bx + ay * by)"

text \<open>\<^verbatim>\<open>np.linalg.norm\<close> of a 3-vector.\<close>
definition linalg_norm :: "vec3 \<Rightarrow> real" where
  "linalg_norm a = (case a of (ax, ay, az) \<Rightarrow> sqrt (ax * ax + ay * ay + az * az))"

text \<open>\<^verbatim>\<open>pc_points[:3, :]\<close>: the first three rows.\<close>
definition xyz :: "point4 \<Rightarrow> vec3" where
  "xyz p = (case p of (x, y, z, w) \<Rightarrow> (x, y, z))"

text \<open>\<^verbatim>\<open>points[:2]\<close> of a 3-vector.\<close>
definition xy :: "vec3 \<Rightarrow> vec2" where
  "xy p = (case p of (x, y, z) \<Rightarrow> (x, y))"

text \<open>\<^verbatim>\<open>np.count_nonzero\<close> of a boolean mask.\<close>
definition count_nonzero :: "bool list \<Rightarrow> int" where
  "count_nonzero a = int (length (filter (\<lambda>b. b) a))"

text \<open>Python's \<^verbatim>\<open>range(a, b)\<close>.\<close>
definition range_py :: "int \<Rightarrow> int \<Rightarrow> int list" where
  "range_py a b = [a..b - 1]"

subsection \<open>The nested helpers of generate\_out\_feature\<close>

text \<open>
  \<^verbatim>\<open>points_in_box(corners, points, wlh_factor=1.0)\<close>, lines 302-340. The parameter
  \<^verbatim>\<open>wlh_factor\<close> is never read. The mask has one entry per point.
\<close>
definition points_in_box :: "corner_array \<Rightarrow> vec3 list \<Rightarrow> bool list" where
  "points_in_box cs points =
     (let p1 = corner0 cs;
          p_x = corner4 cs;
          p_y = corner1 cs;
          p_z = corner3 cs;
          p_i = sub3 p_x p1;
          p_j = sub3 p_y p1;
          p_k = sub3 p_z p1
      in map (\<lambda>pt.
            let v = sub3 pt p1;
                iv = dot3 p_i v;
                jv = dot3 p_j v;
                kv = dot3 p_k v;
                mask_x = (0 \<le> iv \<and> iv \<le> dot3 p_i p_i);
                mask_y = (0 \<le> jv \<and> jv \<le> dot3 p_j p_j);
                mask_z = (0 \<le> kv \<and> kv \<le> dot3 p_k p_k)
            in (mask_x \<and> mask_y) \<and> mask_z) points)"

text \<open>
  \<^verbatim>\<open>points_in_box2d(corners, box2d, points)\<close>, lines 342-360; \<^verbatim>\<open>corners\<close> is never
  read, and \<^verbatim>\<open>points\<close> is the single 3-vector of the call at line 414.
\<close>
definition points_in_box2d :: "corner_array \<Rightarrow> quad \<Rightarrow> vec3 \<Rightarrow> bool" where
  "points_in_box2d cs box2d points =
     (let p1 = row0 box2d;
          p_x = row1 box2d;
          p_y = row3 box2d;
          p_i = sub2 p_x p1;
          p_j = sub2 p_y p1;
          v = sub2 (xy points) p1;
          iv = dot2 p_i v;
          jv = dot2 p_j v;
          mask_x = (0 \<le> iv \<and> iv \<le> dot2 p_i p_i);
          mask_y = (0 \<le> jv \<and> jv \<le> dot2 p_j p_j)
      in mask_x \<and> mask_y)"

text \<open>\<^verbatim>\<open>F2I(val, orig, scale)\<close>, line 364: \<^verbatim>\<open>int(np.floor((orig - val) * scale))\<close>.\<close>
definition F2I :: "real \<Rightarrow> real \<Rightarrow> real \<Rightarrow> int" where
  "F2I val orig scale = \<lfloor>(orig - val) * scale\<rfloor>"

text \<open>\<^verbatim>\<open>Pixel2pc(in_pixel, in_size, out_range)\<close>, lines 369-370.\<close>
definition Pixel2pc :: "int \<Rightarrow> real \<Rightarrow> real \<Rightarrow> error + real" where
  "Pixel2pc in_pixel in_size out_range =
     (if in_size = 0 then Inl ZeroDivisionError
      else let res = 2.0 * out_range / in_size
           in Inr (out_range - (real_of_int in_pixel + 0.5) * res))"

subsection \<open>generate\_out\_feature\<close>

text \<open>Lines 297-300: the extremes of the two columns of \<^verbatim>\<open>box2d\<close>.\<close>
definition col_min :: "(vec2 \<Rightarrow> real) \<Rightarrow> quad \<Rightarrow> real" where
  "col_min f b = min (min (min (f (row0 b)) (f (row1 b))) (f (row2 b))) (f (row3 b))"

definition col_max :: "(vec2 \<Rightarrow> real) \<Rightarrow> quad \<Rightarrow> real" where
  "col_max f b = max (max (max (f (row0 b)) (f (row1 b))) (f (row2 b))) (f (row3 b))"

definition box2d_left :: "quad \<Rightarrow> real" where
  "box2d_left b = col_min fst b"

definition box2d_right :: "quad \<Rightarrow> real" where
  "box2d_right b = col_max fst b"

definition box2d_top :: "quad \<Rightarrow> real" where
  "box2d_top b = col_max snd b"

definition box2d_bottom :: "quad \<Rightarrow> real" where
  "box2d_bottom b = col_min snd b"

text \<open>Lines 372-374.\<close>
definition inv_res :: "int \<Rightarrow> real" where
  "inv_res gsize = 0.5 * real_of_int gsize / 70"

definition res :: "int \<Rightarrow> error + real" where
  "res gsize = (if inv_res gsize = 0 then Inl ZeroDivisionError else Inr (1.0 / inv_res gsize))"

definition max_length :: "int \<Rightarrow> error + real" where
  "max_length gsize = (case res gsize of Inl e \<Rightarrow> Inl e | Inr r \<Rightarrow> Inr \<bar>2 * r\<bar>)"

text \<open>Lines 376-379.\<close>
definition search_area_left_idx :: "int \<Rightarrow> quad \<Rightarrow> int" where
  "search_area_left_idx gsize b = F2I (box2d_left b) 70 (inv_res gsize)"

definition search_area_right_idx :: "int \<Rightarrow> quad \<Rightarrow> int" where
  "search_area_right_idx gsize b = F2I (box2d_right b) 70 (inv_res gsize)"

definition search_area_top_idx :: "int \<Rightarrow> quad \<Rightarrow> int" where
  "search_area_top_idx gsize b = F2I (box2d_top b) 70 (inv_res gsize)"

definition search_area_bottom_idx :: "int \<Rightarrow> quad \<Rightarrow> int" where
  "search_area_bottom_idx gsize b = F2I (box2d_bottom b) 70 (inv_res gsize)"

text \<open>Lines 401-410: the clamping scale of one axis.\<close>
definition x_scale :: "real \<Rightarrow> vec2 \<Rightarrow> real \<Rightarrow> real" where
  "x_scale ml box2d_center grid_center_x =
     (if ml < \<bar>fst box2d_center - grid_center_x\<bar>
      then ml / \<bar>fst box2d_center - grid_center_x\<bar> else 1)"

definition y_scale :: "real \<Rightarrow> vec2 \<Rightarrow> real \<Rightarrow> real" where
  "y_scale ml box2d_center grid_center_y =
     (if ml < \<bar>snd box2d_center - grid_center_y\<bar>
      then ml / \<bar>snd box2d_center - grid_center_y\<bar> else 1)"

text \<open>Line 412: \<^verbatim>\<open>math.atan(math.sin(yaw) / math.cos(yaw))\<close>.\<close>
definition normalized_yaw :: "real \<Rightarrow> error + real" where
  "normalized_yaw yaw =
     (if cos yaw = 0 then Inl ZeroDivisionError else Inr (arctan (sin yaw / cos yaw)))"

text \<open>Lines 419-428: the eight stores into cell \<open>(i, j)\<close>.\<close>
definition write_cell ::
  "vec2 \<Rightarrow> real \<Rightarrow> int \<Rightarrow> real \<Rightarrow> real \<Rightarrow> real \<Rightarrow> real \<Rightarrow> real \<Rightarrow> int \<Rightarrow> int \<Rightarrow> grid \<Rightarrow> grid" where
  "write_cell box2d_center height_pt label nyaw xs ys grid_center_x grid_center_y i j out_feature =
     out_feature
       ((i, j, 0) := 1,
        (i, j, 1) := ((fst box2d_center - grid_center_x) * - 1) * min xs ys,
        (i, j, 2) := ((snd box2d_center - grid_center_y) * - 1) * min xs ys,
        (i, j, 3) := 1,
        (i, j, 4) := real_of_int label,
        (i, j, 5) := cos (nyaw * 2.0),
        (i, j, 6) := sin (nyaw * 2.0),
        (i, j, 7) := height_pt)"

text \<open>Lines 397-428: the body of the inner loop for one candidate cell.\<close>
definition cell_body ::
  "int \<Rightarrow> corner_array \<Rightarrow> quad \<Rightarrow> vec2 \<Rightarrow> real \<Rightarrow> int \<Rightarrow> real \<Rightarrow> real \<Rightarrow> int \<Rightarrow> int \<Rightarrow> grid \<Rightarrow> error + grid" where
  "cell_body gsize box_corners box2d box2d_center height_pt label yaw ml i j out_feature =
     (if 0 \<le> i \<and> i < gsize \<and> 0 \<le> j \<and> j < gsize then
        (case Pixel2pc i (real_of_int gsize) 70 of
           Inl e \<Rightarrow> Inl e
         | Inr grid_center_x \<Rightarrow>
        (case Pixel2pc j (real_of_int gsize) 70 of
           Inl e \<Rightarrow> Inl e
         | Inr grid_center_y \<Rightarrow>
        (let xs = x_scale ml box2d_center grid_center_x;
             ys = y_scale ml box2d_center grid_center_y
         in case normalized_yaw yaw of
              Inl e \<Rightarrow> Inl e
            | Inr nyaw \<Rightarrow>
                (let mask = points_in_box2d box_corners box2d (grid_center_x, grid_center_y, 0)
                 in if mask
                    then Inr (write_cell box2d_center height_pt label nyaw xs ys
                                grid_center_x grid_center_y i j out_feature)
                    else Inr out_feature))))
      else Inr out_feature)"

text \<open>Lines 395-396: the inner loop over \<open>j\<close>, stopping at the first exception.\<close>
fun loop_j ::
  "int \<Rightarrow> corner_array \<Rightarrow> quad \<Rightarrow> vec2 \<Rightarrow> real \<Rightarrow> int \<Rightarrow> real \<Rightarrow> real \<Rightarrow> int \<Rightarrow> int list \<Rightarrow> grid \<Rightarrow> error + grid" where
  "loop_j gsize box_corners box2d box2d_center height_pt label yaw ml i [] out_feature = Inr out_feature"
| "loop_j gsize box_corners box2d box2d_center height_pt label yaw ml i (j # js) out_feature =
     (case cell_body gsize box_corners box2d box2d_center height_pt label yaw ml i j out_feature of
        Inl e \<Rightarrow> Inl e
      | Inr g \<Rightarrow> loop_j gsize box_corners box2d box2d_center height_pt label yaw ml i js g)"

text \<open>Lines 393-394: the outer loop over \<open>i\<close>.\<close>
fun loop_i ::
  "int \<Rightarrow> corner_array \<Rightarrow> quad \<Rightarrow> vec2 \<Rightarrow> real \<Rightarrow> int \<Rightarrow> real \<Rightarrow> real \<Rightarrow> int list \<Rightarrow> int list \<Rightarrow> grid \<Rightarrow> error + grid" where
  "loop_i gsize box_corners box2d box2d_center height_pt label yaw ml [] js out_feature = Inr out_feature"
| "loop_i gsize box_corners box2d box2d_center height_pt label yaw ml (i # is) js out_feature =
     (case loop_j gsize box_corners box2d box2d_center height_pt label yaw ml i js out_feature of
        Inl e \<Rightarrow> Inl e
      | Inr g \<Rightarrow> loop_i gsize box_corners box2d box2d_center height_pt label yaw ml is js g)"

text \<open>Line 381.\<close>
definition num_points :: "corner_array \<Rightarrow> point4 list \<Rightarrow> int" where
  "num_points box_corners pc_points = count_nonzero (points_in_box box_corners (map xyz pc_points))"

text \<open>
  \<^verbatim>\<open>generate_out_feature\<close>, lines 261-430. \<^verbatim>\<open>grid_centers\<close> is a parameter of the
  source that its body never reads.
\<close>
definition generate_out_feature ::
  "int \<Rightarrow> real list \<Rightarrow> corner_array \<Rightarrow> quad \<Rightarrow> vec2 \<Rightarrow> point4 list \<Rightarrow> real \<Rightarrow> int \<Rightarrow> real \<Rightarrow> grid \<Rightarrow> error + grid" where
  "generate_out_feature gsize grid_centers box_corners box2d box2d_center pc_points
       height_pt label yaw out_feature =
     (case max_length gsize of
        Inl e \<Rightarrow> Inl e
      | Inr ml \<Rightarrow>
        (let n = num_points box_corners pc_points
         in if n < 4 \<and> label = 0 then Inr out_feature
            else if n < 4 \<and> label = 1 then Inr out_feature
            else if n < 4 \<and> label = 2 then Inr out_feature
            else if n < 4 \<and> label = 3 then Inr out_feature
            else if n < 4 \<and> label = 4 then Inr out_feature
            else loop_i gsize box_corners box2d box2d_center height_pt label yaw ml
                   (range_py (search_area_right_idx gsize box2d - 1) (search_area_left_idx gsize box2d + 1))
                   (range_py (search_area_top_idx gsize box2d - 1) (search_area_bottom_idx gsize box2d + 1))
                   out_feature))"

subsection \<open>create\_dataset: labelling a box and calling the rasteriser\<close>

text \<open>Python's \<^verbatim>\<open>str.split(sep)\<close> for a one-character separator: never empty.\<close>
fun str_split :: "char \<Rightarrow> string \<Rightarrow> string list" where
  "str_split sep [] = [[]]"
| "str_split sep (c # cs) =
     (if c = sep then [] # str_split sep cs
      else (case str_split sep cs of
              [] \<Rightarrow> [[c]]
            | t # ts \<Rightarrow> (c # t) # ts))"

text \<open>\<^verbatim>\<open>box.name.split('.')[k]\<close>, which raises \<^verbatim>\<open>IndexError\<close> out of range.\<close>
definition token :: "string \<Rightarrow> nat \<Rightarrow> error + string" where
  "token nm k =
     (let toks = str_split (CHR ''.'') nm
      in if k < length toks then Inr (toks ! k) else Inl IndexError)"

text \<open>
  Lines 185-210: the label of a box; \<open>None\<close> is the \<^verbatim>\<open>continue\<close> of line 210.
  The inner chain under \<^verbatim>\<open>'vehicle'\<close> has no \<^verbatim>\<open>else\<close>: the label stays 0.
\<close>
definition label_of_name :: "string \<Rightarrow> error + int option" where
  "label_of_name nm =
     (case token nm 0 of
        Inl e \<Rightarrow> Inl e
      | Inr t0 \<Rightarrow>
          if t0 = ''vehicle'' then
            (case token nm 1 of
               Inl e \<Rightarrow> Inl e
             | Inr t1 \<Rightarrow>
                 if t1 = ''car'' then Inr (Some 1)
                 else if t1 = ''bus'' then Inr (Some 2)
                 else if t1 = ''truck'' then Inr (Some 2)
                 else if t1 = ''construction'' then Inr (Some 2)
                 else if t1 = ''emergency'' then Inr (Some 2)
                 else if t1 = ''trailer'' then Inr (Some 2)
                 else if t1 = ''bicycle'' then Inr (Some 3)
                 else if t1 = ''motorcycle'' then Inr (Some 3)
                 else Inr (Some 0))
          else if t0 = ''human'' then Inr (Some 4)
          else Inr None)"

text \<open>Line 215: \<^verbatim>\<open>corners2d.T[[2, 3, 7, 6]]\<close>.\<close>
definition box2d_of :: "corner_array \<Rightarrow> quad" where
  "box2d_of cs =
     \<lparr>row0 = xy (corner2 cs), row1 = xy (corner3 cs), row2 = xy (corner7 cs), row3 = xy (corner6 cs)\<rparr>"

text \<open>Line 216: \<^verbatim>\<open>box2d.mean(axis=0)\<close>.\<close>
definition mean_axis0 :: "quad \<Rightarrow> vec2" where
  "mean_axis0 b =
     ((fst (row0 b) + fst (row1 b) + fst (row2 b) + fst (row3 b)) / 4,
      (snd (row0 b) + snd (row1 b) + snd (row2 b) + snd (row3 b)) / 4)"

text \<open>
  Lines 185-221: the body of the loop over the boxes of one frame, for a box as the
  augmentation left it.
\<close>
definition process_box :: "int \<Rightarrow> real list \<Rightarrow> point4 list \<Rightarrow> box \<Rightarrow> grid \<Rightarrow> error + grid" where
  "process_box gsize grid_centers pc_points b out_feature =
     (case label_of_name (name b) of
        Inl e \<Rightarrow> Inl e
      | Inr None \<Rightarrow> Inr out_feature
      | Inr (Some label) \<Rightarrow>
          (let height_pt = linalg_norm (sub3 (corner0 (corners b)) (corner3 (corners b)));
               box_corners = corners b;
               box2d = box2d_of box_corners;
               box2d_center = mean_axis0 box2d;
               yaw = orientation_yaw b
           in generate_out_feature gsize grid_centers box_corners box2d box2d_center pc_points
                height_pt label yaw out_feature))"

text \<open>Line 180: the boxes in annotation order, each on the grid the previous one left.\<close>
fun boxes_loop :: "int \<Rightarrow> real list \<Rightarrow> point4 list \<Rightarrow> box list \<Rightarrow> grid \<Rightarrow> error + grid" where
  "boxes_loop gsize grid_centers pc_points [] out_feature = Inr out_feature"
| "boxes_loop gsize grid_centers pc_points (b # bs) out_feature =
     (case process_box gsize grid_centers pc_points b out_feature of
        Inl e \<Rightarrow> Inl e
      | Inr g \<Rightarrow> boxes_loop gsize grid_centers pc_points bs g)"

text \<open>
  One pass of the augmentation loop, as far as the label grid goes: the point cloud and
  the boxes the frame loader and the augmentation hand over.
\<close>
record frame =
  pc_points_of :: "point4 list"
  boxes_of :: "box list"

text \<open>Line 179: \<^verbatim>\<open>np.zeros((size, size, 8))\<close>, which rejects a negative dimension.\<close>
definition zeros :: "int \<Rightarrow> error + grid" where
  "zeros gsize = (if gsize < 0 then Inl ValueError else Inr (\<lambda>_. 0))"

definition process_frame :: "int \<Rightarrow> real list \<Rightarrow> frame \<Rightarrow> error + grid" where
  "process_frame gsize grid_centers f =
     (case zeros gsize of
        Inl e \<Rightarrow> Inl e
      | Inr out_feature \<Rightarrow> boxes_loop gsize grid_centers (pc_points_of f) (boxes_of f) out_feature)"

text \<open>
  Lines 143-252 with the scene, sample and augmentation loops flattened to the list of
  frames they visit: the grids saved so far, and the exception that ended the run if any.
  \<^verbatim>\<open>data_id\<close> counts the saved frames and \<^verbatim>\<open>end_id\<close> stops the run.
\<close>
fun frames_loop ::
  "int \<Rightarrow> real list \<Rightarrow> int option \<Rightarrow> frame list \<Rightarrow> int \<Rightarrow> grid list \<Rightarrow> grid list \<times> error option" where
  "frames_loop gsize grid_centers end_id [] data_id saved = (saved, None)"
| "frames_loop gsize grid_centers end_id (f # fs) data_id saved =
     (case process_frame gsize grid_centers f of
        Inl e \<Rightarrow> (saved, Some e)
      | Inr out_feature \<Rightarrow>
          (if Some (data_id + 1) = end_id then (saved @ [out_feature], None)
           else frames_loop gsize grid_centers end_id fs (data_id + 1) (saved @ [out_feature])))"

text \<open>\<^verbatim>\<open>np.arange(start, stop, step)\<close> on floats.\<close>
definition np_arange :: "real \<Rightarrow> real \<Rightarrow> real \<Rightarrow> error + real list" where
  "np_arange start stop step =
     (if step = 0 then Inl ZeroDivisionError
      else Inr (map (\<lambda>k. start + real k * step) [0..<nat \<lceil>(stop - start) / step\<rceil>]))"

text \<open>Lines 134-252: what \<^verbatim>\<open>create_dataset\<close> does once \<^verbatim>\<open>size\<close> is set.\<close>
definition create_dataset_body ::
  "int \<Rightarrow> real \<Rightarrow> int option \<Rightarrow> frame list \<Rightarrow> grid list \<times> error option" where
  "create_dataset_body gsize grid_range end_id frames =
     (if real_of_int gsize = 0 then ([], Some ZeroDivisionError)
      else let grid_length = 2.0 * grid_range / real_of_int gsize
           in case np_arange (- grid_range) (grid_range + grid_length) grid_length of
                Inl e \<Rightarrow> ([], Some e)
              | Inr grid_ticks \<Rightarrow>
                  (let grid_centers = butlast (map (\<lambda>t. t + grid_length / 2) grid_ticks)
                   in frames_loop gsize grid_centers end_id frames 0 []))"

text \<open>
  \<^verbatim>\<open>create_dataset\<close>, lines 128-132 and then the body. Loading the dataset, the
  augmentation, the input feature and \<^verbatim>\<open>np.save\<close> belong to other modules: the frames
  are a parameter and the saved label grids are the result.
\<close>
definition create_dataset ::
  "int \<Rightarrow> int \<Rightarrow> real \<Rightarrow> int option \<Rightarrow> frame list \<Rightarrow> grid list \<times> error option" where
  "create_dataset width height grid_range end_id frames =
     (if width = height then create_dataset_body width grid_range end_id frames
      else ([], Some (Exception ''Currently only supported if width and height are equal'')))"

subsection \<open>Notions used in the statements\<close>

text \<open>The guard of line 397.\<close>
definition in_grid :: "int \<Rightarrow> int \<Rightarrow> int \<Rightarrow> bool" where
  "in_grid gsize i j \<longleftrightarrow> 0 \<le> i \<and> i < gsize \<and> 0 \<le> j \<and> j < gsize"

text \<open>What \<^verbatim>\<open>Pixel2pc(i, float(size), 70)\<close> returns for a size other than 0.\<close>
definition grid_center :: "int \<Rightarrow> int \<Rightarrow> real" where
  "grid_center gsize i = 70 - (real_of_int i + 0.5) * (2.0 * 70 / real_of_int gsize)"

text \<open>The mask of line 414 at the centre of cell \<open>(i, j)\<close>.\<close>
definition covered :: "corner_array \<Rightarrow> quad \<Rightarrow> int \<Rightarrow> int \<Rightarrow> int \<Rightarrow> bool" where
  "covered box_corners box2d gsize i j \<longleftrightarrow>
     points_in_box2d box_corners box2d (grid_center gsize i, grid_center gsize j, 0)"

text \<open>The range of line 393-394.\<close>
definition search_is :: "int \<Rightarrow> quad \<Rightarrow> int list" where
  "search_is gsize box2d =
     range_py (search_area_right_idx gsize box2d - 1) (search_area_left_idx gsize box2d + 1)"

text \<open>The range of line 395-396.\<close>
definition search_js :: "int \<Rightarrow> quad \<Rightarrow> int list" where
  "search_js gsize box2d =
     range_py (search_area_top_idx gsize box2d - 1) (search_area_bottom_idx gsize box2d + 1)"

text \<open>The effect of the loop body on the grid when no exception is raised.\<close>
definition cell_update ::
  "int \<Rightarrow> corner_array \<Rightarrow> quad \<Rightarrow> vec2 \<Rightarrow> real \<Rightarrow> int \<Rightarrow> real \<Rightarrow> real \<Rightarrow> int \<Rightarrow> int \<Rightarrow> grid \<Rightarrow> grid" where
  "cell_update gsize box_corners box2d box2d_center height_pt label nyaw ml i j g =
     (if in_grid gsize i j \<and> covered box_corners box2d gsize i j
      then write_cell box2d_center height_pt label nyaw
             (x_scale ml box2d_center (grid_center gsize i))
             (y_scale ml box2d_center (grid_center gsize j))
             (grid_center gsize i) (grid_center gsize j) i j g
      else g)"

text \<open>The value that lines 419-428 store in channel \<open>c\<close> of cell \<open>(i, j)\<close>.\<close>
definition cell_value ::
  "int \<Rightarrow> vec2 \<Rightarrow> real \<Rightarrow> int \<Rightarrow> real \<Rightarrow> real \<Rightarrow> int \<Rightarrow> int \<Rightarrow> nat \<Rightarrow> real" where
  "cell_value gsize box2d_center height_pt label nyaw ml i j c =
     write_cell box2d_center height_pt label nyaw
       (x_scale ml box2d_center (grid_center gsize i))
       (y_scale ml box2d_center (grid_center gsize j))
       (grid_center gsize i) (grid_center gsize j) i j (\<lambda>_. 0) (i, j, c)"

text \<open>Lines 382-391 taken together: the early return.\<close>
definition skipped :: "corner_array \<Rightarrow> point4 list \<Rightarrow> int \<Rightarrow> bool" where
  "skipped box_corners pc_points label \<longleftrightarrow>
     num_points box_corners pc_points < 4 \<and> 0 \<le> label \<and> label \<le> 4"

subsection \<open>A concrete frame\<close>

text \<open>
  An axis-aligned box with x in [34, 37], y in [34, 36] and z in [0, 1], its corners in
  the order of the nuScenes \<^verbatim>\<open>Box.corners()\<close>, and a point cloud with four points
  inside the box and one outside.
\<close>
definition example_corners :: corner_array where
  "example_corners =
     \<lparr>corner0 = (37, 36, 1), corner1 = (37, 34, 1), corner2 = (37, 34, 0), corner3 = (37, 36, 0),
      corner4 = (34, 36, 1), corner5 = (34, 34, 1), corner6 = (34, 34, 0), corner7 = (34, 36, 0)\<rparr>"

definition example_points :: "point4 list" where
  "example_points =
     [(35, 35, 1 / 2, 0), (36, 35, 1 / 2, 0), (35, 35, 1, 3), (34, 34, 0, 1), (0, 0, 0, 0)]"

text \<open>
  A second box, 6 long and 2 wide around the origin, for a grid of size 140 (cells of
  width 1), with four points of the cloud inside it.
\<close>
definition long_corners :: corner_array where
  "long_corners =
     \<lparr>corner0 = (3, 1, 1), corner1 = (3, - 1, 1), corner2 = (3, - 1, 0), corner3 = (3, 1, 0),
      corner4 = (- 3, 1, 1), corner5 = (- 3, - 1, 1), corner6 = (- 3, - 1, 0), corner7 = (- 3, 1, 0)\<rparr>"

definition long_points :: "point4 list" where
  "long_points = [(0, 0, 1 / 2, 0), (1, 0, 1 / 2, 0), (2, 1 / 2, 1, 7), (- 3, - 1, 0, 1)]"

definition long_box :: "string \<Rightarrow> real \<Rightarrow> box" where
  "long_box nm yaw = \<lparr>name = nm, corners = long_corners, orientation_yaw = yaw\<rparr>"

text \<open>The grid of line 179.\<close>
definition blank :: grid where
  "blank = (\<lambda>_. 0)"

text \<open>A footprint that lies beyond the range of 70.\<close>
definition far_box2d :: quad where
  "far_box2d = \<lparr>row0 = (103, - 1), row1 = (103, 1), row2 = (100, 1), row3 = (100, - 1)\<rparr>"

text \<open>A frame with the second box alone, under a given category name.\<close>
definition example_frame :: "string \<Rightarrow> frame" where
  "example_frame nm = \<lparr>pc_points_of = long_points, boxes_of = [long_box nm 0]\<rparr>"

text \<open>
  A third box, turned by a yaw of \<open>\<pi> / 4\<close> and centred at (20, -10): its footprint is
  the rectangle with the corners (24, -8), (22, -6), (16, -12) and (18, -14), its
  height is 2, and four points of the cloud are inside it.
\<close>
definition turned_corners :: corner_array where
  "turned_corners =
     \<lparr>corner0 = (22, - 6, 2), corner1 = (24, - 8, 2), corner2 = (24, - 8, 0),
      corner3 = (22, - 6, 0), corner4 = (16, - 12, 2), corner5 = (18, - 14, 2),
      corner6 = (18, - 14, 0), corner7 = (16, - 12, 0)\<rparr>"

definition turned_points :: "point4 list" where
  "turned_points =
     [(20, - 10, 1, 0), (21, - 9, 1, 5), (19, - 11, 1 / 2, 0), (22, - 8, 2, 1), (0, 0, 0, 0)]"

definition turned_box :: box where
  "turned_box = \<lparr>name = ''vehicle.truck'', corners = turned_corners, orientation_yaw = pi / 4\<rparr>"

text \<open>Sum of two 3-vectors, for the points the statements translate.\<close>
definition add3 :: "vec3 \<Rightarrow> vec3 \<Rightarrow> vec3" where
  "add3 a b = (case a of (ax, ay, az) \<Rightarrow> case b of (bx, by, bz) \<Rightarrow> (ax + bx, ay + by, az + bz))"

text \<open>A 3-vector times a scalar.\<close>
definition smul3 :: "real \<Rightarrow> vec3 \<Rightarrow> vec3" where
  "smul3 r a = (case a of (ax, ay, az) \<Rightarrow> (r * ax, r * ay, r * az))"

text \<open>The midpoint of two points.\<close>
definition midpoint3 :: "vec3 \<Rightarrow> vec3 \<Rightarrow> vec3" where
  "midpoint3 p q = smul3 (1 / 2) (add3 p q)"

text \<open>The edge vectors \<^verbatim>\<open>pi\<close>, \<^verbatim>\<open>pj\<close>, \<^verbatim>\<open>pk\<close> of lines 325-327.\<close>
definition edge_i :: "corner_array \<Rightarrow> vec3" where
  "edge_i cs = sub3 (corner4 cs) (corner0 cs)"

definition edge_j :: "corner_array \<Rightarrow> vec3" where
  "edge_j cs = sub3 (corner1 cs) (corner0 cs)"

definition edge_k :: "corner_array \<Rightarrow> vec3" where
  "edge_k cs = sub3 (corner3 cs) (corner0 cs)"

text \<open>The eight columns of \<^verbatim>\<open>corners\<close>, by index.\<close>
definition corner_list :: "corner_array \<Rightarrow> vec3 list" where
  "corner_list cs =
     [corner0 cs, corner1 cs, corner2 cs, corner3 cs, corner4 cs, corner5 cs, corner6 cs, corner7 cs]"

text \<open>The mean of the eight corners.\<close>
definition centroid :: "corner_array \<Rightarrow> vec3" where
  "centroid cs =
     smul3 (1 / 8)
       (add3 (corner0 cs) (add3 (corner1 cs) (add3 (corner2 cs) (add3 (corner3 cs)
       (add3 (corner4 cs) (add3 (corner5 cs) (add3 (corner6 cs) (corner7 cs))))))))"

text \<open>
  A box in the corner order of the nuScenes \<^verbatim>\<open>Box.corners()\<close>: the three edges at
  corner 0 (to the corners 4, 1 and 3) are mutually orthogonal and not of length 0, and
  the corners 2, 5, 6 and 7 are corner 0 moved along two or three of these edges.
\<close>
definition is_box :: "corner_array \<Rightarrow> bool" where
  "is_box cs \<longleftrightarrow>
     dot3 (edge_i cs) (edge_j cs) = 0 \<and> dot3 (edge_i cs) (edge_k cs) = 0
     \<and> dot3 (edge_j cs) (edge_k cs) = 0
     \<and> dot3 (edge_i cs) (edge_i cs) \<noteq> 0 \<and> dot3 (edge_j cs) (edge_j cs) \<noteq> 0
     \<and> dot3 (edge_k cs) (edge_k cs) \<noteq> 0
     \<and> corner2 cs = add3 (add3 (corner0 cs) (edge_j cs)) (edge_k cs)
     \<and> corner5 cs = add3 (add3 (corner0 cs) (edge_i cs)) (edge_j cs)
     \<and> corner6 cs = add3 (add3 (add3 (corner0 cs) (edge_i cs)) (edge_j cs)) (edge_k cs)
     \<and> corner7 cs = add3 (add3 (corner0 cs) (edge_i cs)) (edge_k cs)"

text \<open>The test of lines 329-338 for one point.\<close>
definition inside3 :: "corner_array \<Rightarrow> vec3 \<Rightarrow> bool" where
  "inside3 cs pt \<longleftrightarrow>
     (0 \<le> dot3 (edge_i cs) (sub3 pt (corner0 cs))
        \<and> dot3 (edge_i cs) (sub3 pt (corner0 cs)) \<le> dot3 (edge_i cs) (edge_i cs))
     \<and> (0 \<le> dot3 (edge_j cs) (sub3 pt (corner0 cs))
        \<and> dot3 (edge_j cs) (sub3 pt (corner0 cs)) \<le> dot3 (edge_j cs) (edge_j cs))
     \<and> (0 \<le> dot3 (edge_k cs) (sub3 pt (corner0 cs))
        \<and> dot3 (edge_k cs) (sub3 pt (corner0 cs)) \<le> dot3 (edge_k cs) (edge_k cs))"

section \<open>Properties\<close>

subsection \<open>Evaluation of the concrete frame\<close>

lemma example_num_points: "num_points example_corners example_points = 4"
  by (simp add: num_points_def example_corners_def example_points_def points_in_box_def
      count_nonzero_def xyz_def sub3_def dot3_def)

lemma example_num_points_sparse: "num_points example_corners (take 2 example_points) = 2"
  by (simp add: num_points_def example_corners_def example_points_def points_in_box_def
      count_nonzero_def xyz_def sub3_def dot3_def)

subsection \<open>The preamble of generate\_out\_feature\<close>

lemma max_length_eq: "gsize \<noteq> 0 \<Longrightarrow> max_length gsize = Inr (280 / \<bar>real_of_int gsize\<bar>)"
  by (simp add: max_length_def res_def inv_res_def abs_mult)

lemma max_length_zero: "max_length 0 = Inl ZeroDivisionError"
  by (simp add: max_length_def res_def inv_res_def)

subsection \<open>The cell loops\<close>

lemma Pixel2pc_grid_center:
  "gsize \<noteq> 0 \<Longrightarrow> Pixel2pc i (real_of_int gsize) 70 = Inr (grid_center gsize i)"
  by (simp add: Pixel2pc_def grid_center_def)

lemma in_grid_nonzero: "in_grid gsize i j \<Longrightarrow> gsize \<noteq> 0"
  by (auto simp add: in_grid_def)

lemma lt8_cases: "(c::nat) < 8 \<longleftrightarrow> c = 0 \<or> c = 1 \<or> c = 2 \<or> c = 3 \<or> c = 4 \<or> c = 5 \<or> c = 6 \<or> c = 7"
  by arith

lemma write_cell_apply:
  "write_cell bc h l ny xs ys gx gy i j g (a, b, c) =
     (if a = i \<and> b = j \<and> c < 8 then write_cell bc h l ny xs ys gx gy i j (\<lambda>_. 0) (i, j, c)
      else g (a, b, c))"
  by (auto simp add: write_cell_def lt8_cases)

lemma cell_update_apply:
  "cell_update gsize cs b2 bc h l ny ml i j g (a, b, c) =
     (if a = i \<and> b = j \<and> in_grid gsize i j \<and> covered cs b2 gsize i j \<and> c < 8
      then cell_value gsize bc h l ny ml i j c
      else g (a, b, c))"
  unfolding cell_update_def cell_value_def
  by (simp add: write_cell_apply [where g = g])

lemma cell_body_Inr:
  assumes "normalized_yaw yaw = Inr ny"
  shows "cell_body gsize cs b2 bc h l yaw ml i j g = Inr (cell_update gsize cs b2 bc h l ny ml i j g)"
proof (cases "in_grid gsize i j")
  case True
  then have "gsize \<noteq> 0" by (rule in_grid_nonzero)
  with True assms show ?thesis
    by (simp add: cell_body_def cell_update_def Pixel2pc_grid_center covered_def in_grid_def)
next
  case False
  then show ?thesis by (auto simp add: cell_body_def cell_update_def in_grid_def)
qed

lemma cell_body_cos0:
  assumes "cos yaw = 0"
  shows "cell_body gsize cs b2 bc h l yaw ml i j g =
           (if in_grid gsize i j then Inl ZeroDivisionError else Inr g)"
proof (cases "in_grid gsize i j")
  case True
  then have "gsize \<noteq> 0" by (rule in_grid_nonzero)
  with True assms show ?thesis
    by (simp add: cell_body_def Pixel2pc_grid_center normalized_yaw_def in_grid_def)
next
  case False
  then show ?thesis by (auto simp add: cell_body_def in_grid_def)
qed

lemma loop_j_Inr:
  assumes "normalized_yaw yaw = Inr ny"
  shows "loop_j gsize cs b2 bc h l yaw ml i js g =
           Inr (fold (cell_update gsize cs b2 bc h l ny ml i) js g)"
  by (induction js arbitrary: g) (simp_all add: cell_body_Inr [OF assms])

lemma loop_i_Inr:
  assumes "normalized_yaw yaw = Inr ny"
  shows "loop_i gsize cs b2 bc h l yaw ml is js g =
           Inr (fold (\<lambda>i. fold (cell_update gsize cs b2 bc h l ny ml i) js) is g)"
  by (induction "is" arbitrary: g) (simp_all add: loop_j_Inr [OF assms])

lemma fold_j_apply:
  "fold (cell_update gsize cs b2 bc h l ny ml i) js g (a, b, c) =
     (if a = i \<and> b \<in> set js \<and> in_grid gsize i b \<and> covered cs b2 gsize i b \<and> c < 8
      then cell_value gsize bc h l ny ml i b c
      else g (a, b, c))"
proof (induction js arbitrary: g)
  case Nil
  then show ?case by simp
next
  case (Cons j js)
  show ?case
    by (auto simp add: Cons.IH cell_update_apply)
qed

lemma fold_i_apply:
  "fold (\<lambda>i. fold (cell_update gsize cs b2 bc h l ny ml i) js) is g (a, b, c) =
     (if a \<in> set is \<and> b \<in> set js \<and> in_grid gsize a b \<and> covered cs b2 gsize a b \<and> c < 8
      then cell_value gsize bc h l ny ml a b c
      else g (a, b, c))"
proof (induction "is" arbitrary: g)
  case Nil
  then show ?case by simp
next
  case (Cons i "is")
  show ?case
    by (auto simp add: Cons.IH fold_j_apply)
qed

lemma loop_j_cos0:
  assumes "cos yaw = 0"
  shows "loop_j gsize cs b2 bc h l yaw ml i js g =
           (if \<exists>j\<in>set js. in_grid gsize i j then Inl ZeroDivisionError else Inr g)"
  by (induction js) (simp_all add: cell_body_cos0 [OF assms])

lemma loop_i_cos0:
  assumes "cos yaw = 0"
  shows "loop_i gsize cs b2 bc h l yaw ml is js g =
           (if \<exists>i\<in>set is. \<exists>j\<in>set js. in_grid gsize i j then Inl ZeroDivisionError else Inr g)"
  by (induction "is") (simp_all add: loop_j_cos0 [OF assms])

lemma skipped_chain:
  "skipped cs pts l \<longleftrightarrow>
     (num_points cs pts < 4 \<and> l = 0) \<or> (num_points cs pts < 4 \<and> l = 1) \<or> (num_points cs pts < 4 \<and> l = 2)
     \<or> (num_points cs pts < 4 \<and> l = 3) \<or> (num_points cs pts < 4 \<and> l = 4)"
  unfolding skipped_def by arith

lemma generate_zero:
  "generate_out_feature 0 gc cs b2 bc pts h l yaw g = Inl ZeroDivisionError"
  by (simp add: generate_out_feature_def max_length_zero)

lemma generate_skipped:
  assumes "gsize \<noteq> 0" and "skipped cs pts l"
  shows "generate_out_feature gsize gc cs b2 bc pts h l yaw g = Inr g"
  using assms(2) unfolding skipped_chain
  by (auto simp add: generate_out_feature_def max_length_eq [OF assms(1)] Let_def)

lemma generate_loop:
  assumes "gsize \<noteq> 0" and "\<not> skipped cs pts l"
  shows "generate_out_feature gsize gc cs b2 bc pts h l yaw g =
           loop_i gsize cs b2 bc h l yaw (280 / \<bar>real_of_int gsize\<bar>)
             (search_is gsize b2) (search_js gsize b2) g"
  using assms(2) unfolding skipped_chain
  by (auto simp add: generate_out_feature_def max_length_eq [OF assms(1)] Let_def
      search_is_def search_js_def)

lemma normalized_yaw_Inr:
  "cos yaw \<noteq> 0 \<Longrightarrow> normalized_yaw yaw = Inr (arctan (sin yaw / cos yaw))"
  by (simp add: normalized_yaw_def)

lemma generate_written:
  assumes "gsize \<noteq> 0" and "\<not> skipped cs pts l" and "cos yaw \<noteq> 0"
  shows "\<exists>g'. generate_out_feature gsize gc cs b2 bc pts h l yaw g = Inr g'
           \<and> (\<forall>a b c. g' (a, b, c) =
                (if a \<in> set (search_is gsize b2) \<and> b \<in> set (search_js gsize b2)
                    \<and> in_grid gsize a b \<and> covered cs b2 gsize a b \<and> c < 8
                 then cell_value gsize bc h l (arctan (sin yaw / cos yaw))
                        (280 / \<bar>real_of_int gsize\<bar>) a b c
                 else g (a, b, c)))"
  by (simp add: generate_loop [OF assms(1,2)] loop_i_Inr [OF normalized_yaw_Inr [OF assms(3)]]
      fold_i_apply)

lemma generate_cos0:
  assumes "gsize \<noteq> 0" and "\<not> skipped cs pts l" and "cos yaw = 0"
  shows "generate_out_feature gsize gc cs b2 bc pts h l yaw g =
           (if \<exists>i\<in>set (search_is gsize b2). \<exists>j\<in>set (search_js gsize b2). in_grid gsize i j
            then Inl ZeroDivisionError else Inr g)"
  by (simp only: generate_loop [OF assms(1,2)] loop_i_cos0 [OF assms(3)])

lemma cell_value_channels:
  "cell_value gsize bc h l ny ml i j 0 = 1"
  "cell_value gsize bc h l ny ml i j 1 =
     ((fst bc - grid_center gsize i) * - 1)
       * min (x_scale ml bc (grid_center gsize i)) (y_scale ml bc (grid_center gsize j))"
  "cell_value gsize bc h l ny ml i j 2 =
     ((snd bc - grid_center gsize j) * - 1)
       * min (x_scale ml bc (grid_center gsize i)) (y_scale ml bc (grid_center gsize j))"
  "cell_value gsize bc h l ny ml i j 3 = 1"
  "cell_value gsize bc h l ny ml i j 4 = real_of_int l"
  "cell_value gsize bc h l ny ml i j 5 = cos (ny * 2.0)"
  "cell_value gsize bc h l ny ml i j 6 = sin (ny * 2.0)"
  "cell_value gsize bc h l ny ml i j 7 = h"
  by (simp_all add: cell_value_def write_cell_def)

subsection \<open>Sparse boxes\<close>

text \<open>
  C2. When fewer than four points of the cloud pass the 3D membership test,
  \<^verbatim>\<open>generate_out_feature\<close> returns the grid it was given, with no cell and no channel
  changed, for each of the labels 0, 1, 2, 3 and 4: the five guards of lines 382-391
  amount to one condition that does not depend on the label. (The grid size is not 0:
  for size 0 line 373 divides by zero before the points are counted.)
\<close>
theorem sparse_box_leaves_grid_unchanged:
  assumes "gsize \<noteq> 0"
    and "num_points box_corners pc_points < 4"
    and "0 \<le> label" and "label \<le> 4"
  shows "generate_out_feature gsize grid_centers box_corners box2d box2d_center pc_points
           height_pt label yaw out_feature = Inr out_feature"
proof -
  from assms(3,4) have "label = 0 \<or> label = 1 \<or> label = 2 \<or> label = 3 \<or> label = 4"
    by arith
  with assms(1,2) show ?thesis
    by (auto simp add: generate_out_feature_def max_length_eq Let_def)
qed

theorem sparse_box_leaves_grid_unchanged_witness:
  "(2::int) \<noteq> 0 \<and> num_points example_corners (take 2 example_points) < 4
   \<and> (0::int) \<le> 3 \<and> (3::int) \<le> 4
   \<and> generate_out_feature 2 [] example_corners (box2d_of example_corners)
        (mean_axis0 (box2d_of example_corners)) (take 2 example_points) 1 3 0 (\<lambda>_. 5)
      = Inr (\<lambda>_. 5)"
  using sparse_box_leaves_grid_unchanged [of 2 example_corners "take 2 example_points" 3 "[]"
      "box2d_of example_corners" "mean_axis0 (box2d_of example_corners)" 1 0 "\<lambda>_. 5"]
  by (simp add: example_num_points_sparse)

subsection \<open>The grid indexer\<close>

text \<open>
  C5. For a world coordinate \<open>v\<close> with \<open>- R < v \<le> R\<close> and a grid size \<open>N > 0\<close>:
  \<^verbatim>\<open>Pixel2pc\<close> applied to the cell \<^verbatim>\<open>F2I(v, R, 0.5 * N / R)\<close> returns a coordinate
  within one cell width \<open>2 R / N\<close> of \<open>v\<close>, and \<^verbatim>\<open>F2I\<close> is monotonically decreasing
  in its first argument for this \<open>R\<close> and \<open>N\<close>.
\<close>
theorem grid_indexer_round_trip_and_antitone:
  assumes "0 < N" and "- R < v" and "v \<le> R"
  shows "(\<exists>w. Pixel2pc (F2I v R (0.5 * real_of_int N / R)) (real_of_int N) R = Inr w
              \<and> \<bar>w - v\<bar> \<le> 2 * R / real_of_int N)
         \<and> (\<forall>v1 v2. v1 \<le> v2 \<longrightarrow>
               F2I v2 R (0.5 * real_of_int N / R) \<le> F2I v1 R (0.5 * real_of_int N / R))"
proof
  from assms have R: "0 < R" by linarith
  define g where "g = 2 * R / real_of_int N"
  define t where "t = (R - v) * (0.5 * real_of_int N / R)"
  define c where "c = F2I v R (0.5 * real_of_int N / R)"
  define w where "w = R - (real_of_int c + 0.5) * g"
  have g: "0 < g" using R assms(1) by (simp add: g_def)
  have gt: "g * t = R - v" using R assms(1) by (simp add: g_def t_def)
  have c: "c = \<lfloor>t\<rfloor>" by (simp add: c_def F2I_def t_def)
  have P: "Pixel2pc c (real_of_int N) R = Inr w"
    using assms(1) by (simp add: Pixel2pc_def w_def g_def)
  have "w - v = g * t - (real_of_int c + 0.5) * g" by (simp add: w_def gt)
  also have "\<dots> = g * (t - real_of_int c - 1 / 2)" by (simp add: algebra_simps)
  finally have "\<bar>w - v\<bar> = g * \<bar>t - real_of_int c - 1 / 2\<bar>"
    using g by (simp add: abs_mult)
  moreover have "\<bar>t - real_of_int c - 1 / 2\<bar> \<le> 1" unfolding c by linarith
  ultimately have "\<bar>w - v\<bar> \<le> g * 1" using g by (simp only: mult_left_mono less_imp_le)
  then show "\<exists>w. Pixel2pc (F2I v R (0.5 * real_of_int N / R)) (real_of_int N) R = Inr w
              \<and> \<bar>w - v\<bar> \<le> 2 * R / real_of_int N"
    using P by (simp add: c_def g_def)
  show "\<forall>v1 v2. v1 \<le> v2 \<longrightarrow>
          F2I v2 R (0.5 * real_of_int N / R) \<le> F2I v1 R (0.5 * real_of_int N / R)"
    unfolding F2I_def using assms(1) R by (intro allI impI floor_mono mult_right_mono) simp_all
qed

theorem grid_indexer_round_trip_and_antitone_witness:
  "(0::int) < 2 \<and> - (70::real) < 36 \<and> (36::real) \<le> 70
   \<and> (\<exists>w. Pixel2pc (F2I 36 70 (0.5 * real_of_int 2 / 70)) (real_of_int 2) 70 = Inr w
           \<and> \<bar>w - 36\<bar> \<le> 2 * 70 / real_of_int 2)
   \<and> (- 40::real) \<le> 36
   \<and> F2I 36 70 (0.5 * real_of_int 2 / 70) \<le> F2I (- 40) 70 (0.5 * real_of_int 2 / 70)"
proof -
  from grid_indexer_round_trip_and_antitone [of 2 70 36]
  have a: "\<exists>w. Pixel2pc (F2I 36 70 (0.5 * real_of_int 2 / 70)) (real_of_int 2) 70 = Inr w
           \<and> \<bar>w - 36\<bar> \<le> 2 * 70 / real_of_int 2"
    and b: "\<forall>v1 v2. v1 \<le> v2 \<longrightarrow>
          F2I v2 70 (0.5 * real_of_int 2 / 70) \<le> F2I v1 70 (0.5 * real_of_int 2 / 70)"
    by simp_all
  from b have "F2I 36 70 (0.5 * real_of_int 2 / 70) \<le> F2I (- 40) 70 (0.5 * real_of_int 2 / 70)"
    by simp
  with a show ?thesis by simp
qed

subsection \<open>The heading encoding\<close>

text \<open>
  C7. For a yaw with \<open>cos yaw \<noteq> 0\<close> and \<open>cos (yaw + \<pi>) \<noteq> 0\<close>, line 412 returns a
  normalised yaw for \<open>yaw\<close> and for \<open>yaw + \<pi>\<close>, and the pair written by lines 426-427,
  the cosine and the sine of twice the normalised yaw, is the same for both.
\<close>
theorem heading_encoding_half_turn:
  assumes "cos yaw \<noteq> 0" and "cos (yaw + pi) \<noteq> 0"
  shows "\<exists>a b. normalized_yaw yaw = Inr a \<and> normalized_yaw (yaw + pi) = Inr b
           \<and> cos (a * 2.0) = cos (b * 2.0) \<and> sin (a * 2.0) = sin (b * 2.0)"
  using assms by (simp add: normalized_yaw_def)

theorem heading_encoding_half_turn_witness:
  "cos (0::real) \<noteq> 0 \<and> cos (0 + pi) \<noteq> 0
   \<and> (\<exists>a b. normalized_yaw 0 = Inr a \<and> normalized_yaw (0 + pi) = Inr b
           \<and> cos (a * 2.0) = cos (b * 2.0) \<and> sin (a * 2.0) = sin (b * 2.0))"
  using heading_encoding_half_turn [of 0] by simp

subsection \<open>Evaluation of the second box\<close>

lemma long_num_points: "num_points long_corners long_points = 4"
  by (simp add: num_points_def long_corners_def long_points_def points_in_box_def
      count_nonzero_def xyz_def sub3_def dot3_def)

lemma long_box2d:
  "box2d_of long_corners = \<lparr>row0 = (3, - 1), row1 = (3, 1), row2 = (- 3, 1), row3 = (- 3, - 1)\<rparr>"
  by (simp add: box2d_of_def long_corners_def xy_def)

lemma long_center: "mean_axis0 (box2d_of long_corners) = (0, 0)"
  by (simp add: long_box2d mean_axis0_def)

lemma long_search_is: "search_is 140 (box2d_of long_corners) = [66..73]"
  by (simp add: search_is_def long_box2d search_area_left_idx_def search_area_right_idx_def
      F2I_def inv_res_def box2d_left_def box2d_right_def col_min_def col_max_def range_py_def)

lemma long_search_js: "search_js 140 (box2d_of long_corners) = [68..71]"
  by (simp add: search_js_def long_box2d search_area_top_idx_def search_area_bottom_idx_def
      F2I_def inv_res_def box2d_top_def box2d_bottom_def col_min_def col_max_def range_py_def)

lemma long_pixels:
  "Pixel2pc 67 140 70 = Inr (5 / 2)"
  "Pixel2pc 68 140 70 = Inr (3 / 2)"
  "Pixel2pc 69 140 70 = Inr (1 / 2)"
  by (simp_all add: Pixel2pc_def)

lemma long_covered:
  "points_in_box2d long_corners (box2d_of long_corners) (5 / 2, 1 / 2, 0)"
  "points_in_box2d long_corners (box2d_of long_corners) (3 / 2, 1 / 2, 0)"
  by (simp_all add: points_in_box2d_def long_box2d xy_def sub2_def dot2_def)

lemma long_height: "linalg_norm (sub3 (corner0 long_corners) (corner3 long_corners)) = 1"
  by (simp add: linalg_norm_def sub3_def long_corners_def)

lemma max_length_140: "max_length 140 = Inr 2"
  by (simp add: max_length_def res_def inv_res_def)

subsection \<open>Labels\<close>

lemma label_examples:
  "label_of_name ''vehicle.car'' = Inr (Some 1)"
  "label_of_name ''vehicle.truck'' = Inr (Some 2)"
  "label_of_name ''vehicle.ego'' = Inr (Some 0)"
  "label_of_name ''movable_object.barrier'' = Inr None"
  "label_of_name ''human.pedestrian.adult'' = Inr (Some 4)"
  "label_of_name ''vehicle'' = Inl IndexError"
  by (simp_all add: label_of_name_def token_def)

lemma label_range:
  "label_of_name nm = Inr (Some l) \<Longrightarrow> 0 \<le> l \<and> l \<le> 4"
  by (auto simp add: label_of_name_def split: sum.splits if_splits)

lemma skipped_label:
  "label_of_name nm = Inr (Some l) \<Longrightarrow> skipped cs pts l \<longleftrightarrow> num_points cs pts < 4"
  using label_range [of nm l] by (simp add: skipped_def)

subsection \<open>One written cell\<close>

lemma Pixel2pc_Inr_iff:
  "Pixel2pc i (real_of_int gsize) 70 = Inr gx \<longleftrightarrow> gsize \<noteq> 0 \<and> gx = grid_center gsize i"
  by (auto simp add: Pixel2pc_def grid_center_def)

lemma normalized_yaw_Inr_iff:
  "normalized_yaw yaw = Inr ny \<longleftrightarrow> cos yaw \<noteq> 0 \<and> ny = arctan (sin yaw / cos yaw)"
  by (auto simp add: normalized_yaw_def)

lemma max_length_Inr_iff:
  "max_length gsize = Inr ml \<longleftrightarrow> gsize \<noteq> 0 \<and> ml = 280 / \<bar>real_of_int gsize\<bar>"
  by (cases "gsize = 0") (auto simp add: max_length_zero max_length_eq)

lemma generate_cell:
  assumes "\<not> skipped cs pts l"
    and "max_length gsize = Inr ml"
    and "normalized_yaw yaw = Inr ny"
    and "i \<in> set (search_is gsize b2)" and "j \<in> set (search_js gsize b2)"
    and "0 \<le> i \<and> i < gsize \<and> 0 \<le> j \<and> j < gsize"
    and "Pixel2pc i (real_of_int gsize) 70 = Inr gx"
    and "Pixel2pc j (real_of_int gsize) 70 = Inr gy"
    and "points_in_box2d cs b2 (gx, gy, 0)"
  shows "\<exists>g'. generate_out_feature gsize gc cs b2 bc pts h l yaw g = Inr g'
           \<and> g' (i, j, 0) = 1
           \<and> g' (i, j, 1) = ((fst bc - gx) * - 1) * min (x_scale ml bc gx) (y_scale ml bc gy)
           \<and> g' (i, j, 2) = ((snd bc - gy) * - 1) * min (x_scale ml bc gx) (y_scale ml bc gy)
           \<and> g' (i, j, 3) = 1
           \<and> g' (i, j, 4) = real_of_int l
           \<and> g' (i, j, 5) = cos (ny * 2.0)
           \<and> g' (i, j, 6) = sin (ny * 2.0)
           \<and> g' (i, j, 7) = h"
proof -
  from assms(2) have gs: "gsize \<noteq> 0" and ml: "ml = 280 / \<bar>real_of_int gsize\<bar>"
    by (simp_all add: max_length_Inr_iff)
  from assms(3) have cy: "cos yaw \<noteq> 0" and ny: "ny = arctan (sin yaw / cos yaw)"
    by (simp_all add: normalized_yaw_Inr_iff)
  from assms(7,8) have gx: "gx = grid_center gsize i" and gy: "gy = grid_center gsize j"
    by (simp_all add: Pixel2pc_Inr_iff)
  have ig: "in_grid gsize i j" using assms(6) by (simp add: in_grid_def)
  have cv: "covered cs b2 gsize i j" using assms(9) by (simp add: covered_def gx gy)
  from generate_written [OF gs assms(1) cy, of gc b2 bc h g]
  obtain g' where g': "generate_out_feature gsize gc cs b2 bc pts h l yaw g = Inr g'"
    and v: "\<And>a b c. g' (a, b, c) =
                (if a \<in> set (search_is gsize b2) \<and> b \<in> set (search_js gsize b2)
                    \<and> in_grid gsize a b \<and> covered cs b2 gsize a b \<and> c < 8
                 then cell_value gsize bc h l (arctan (sin yaw / cos yaw))
                        (280 / \<bar>real_of_int gsize\<bar>) a b c
                 else g (a, b, c))"
    by blast
  have vals:
    "g' (i, j, 0) = cell_value gsize bc h l ny ml i j 0"
    "g' (i, j, 1) = cell_value gsize bc h l ny ml i j 1"
    "g' (i, j, 2) = cell_value gsize bc h l ny ml i j 2"
    "g' (i, j, 3) = cell_value gsize bc h l ny ml i j 3"
    "g' (i, j, 4) = cell_value gsize bc h l ny ml i j 4"
    "g' (i, j, 5) = cell_value gsize bc h l ny ml i j 5"
    "g' (i, j, 6) = cell_value gsize bc h l ny ml i j 6"
    "g' (i, j, 7) = cell_value gsize bc h l ny ml i j 7"
    by (simp_all add: v assms(4,5) ig cv ny ml)
  note vals' = vals [unfolded cell_value_channels]
  show ?thesis unfolding gx gy using g' vals' by blast
qed

lemma not_skipped: "4 \<le> num_points cs pts \<Longrightarrow> \<not> skipped cs pts l"
  by (simp add: skipped_def)

lemma search_ranges:
  "range_py (search_area_right_idx gsize b2 - 1) (search_area_left_idx gsize b2 + 1) = search_is gsize b2"
  "range_py (search_area_top_idx gsize b2 - 1) (search_area_bottom_idx gsize b2 + 1) = search_js gsize b2"
  by (simp_all add: search_is_def search_js_def)


subsection \<open>The clamping threshold\<close>

text \<open>
  C4, as stated, fails. For size 140 the threshold \<^verbatim>\<open>max_length\<close> of line 374 is 2,
  not \<open>2 * (70 / 140) = 1\<close>; the centre 3/2 of cell 68 is farther than 1 from the x
  centre 0 of the second box, and its x scale is 1, not 1 divided by that distance.
\<close>
theorem clamping_threshold_counterexample:
  "max_length 140 = Inr 2
   \<and> (2::real) \<noteq> 2 * (70 / real_of_int 140)
   \<and> Pixel2pc 68 (real_of_int 140) 70 = Inr (3 / 2)
   \<and> 2 * (70 / real_of_int 140) < \<bar>fst (mean_axis0 (box2d_of long_corners)) - 3 / 2\<bar>
   \<and> x_scale 2 (mean_axis0 (box2d_of long_corners)) (3 / 2) = 1
   \<and> x_scale 2 (mean_axis0 (box2d_of long_corners)) (3 / 2)
       \<noteq> 2 * (70 / real_of_int 140) / \<bar>fst (mean_axis0 (box2d_of long_corners)) - 3 / 2\<bar>"
  by (simp add: max_length_140 long_pixels long_center x_scale_def)

text \<open>
  C4, amended. The threshold is \<open>\<bar>2 * res\<bar>\<close> with \<open>res = 1 / (0.5 * size / 70)\<close>,
  that is \<open>4 * (70 / size)\<close>: two cell widths, for the fixed range 70. In every
  written cell, an axis whose distance between the cell centre and the 2D centre of the
  box exceeds this threshold has the scale threshold / distance, any other axis has
  scale 1, and the offsets stored in channels 1 and 2 are multiplied by the smaller of
  the two scales.
\<close>
theorem clamping_threshold_two_cells:
  assumes "4 \<le> num_points box_corners pc_points"
    and "normalized_yaw yaw = Inr ny"
    and "i \<in> set (range_py (search_area_right_idx gsize box2d - 1) (search_area_left_idx gsize box2d + 1))"
    and "j \<in> set (range_py (search_area_top_idx gsize box2d - 1) (search_area_bottom_idx gsize box2d + 1))"
    and "0 \<le> i \<and> i < gsize \<and> 0 \<le> j \<and> j < gsize"
    and "Pixel2pc i (real_of_int gsize) 70 = Inr gx"
    and "Pixel2pc j (real_of_int gsize) 70 = Inr gy"
    and "points_in_box2d box_corners box2d (gx, gy, 0)"
  shows "let T = 4 * (70 / real_of_int gsize);
             sx = (if T < \<bar>fst box2d_center - gx\<bar> then T / \<bar>fst box2d_center - gx\<bar> else 1);
             sy = (if T < \<bar>snd box2d_center - gy\<bar> then T / \<bar>snd box2d_center - gy\<bar> else 1)
         in max_length gsize = Inr T
            \<and> (\<exists>g'. generate_out_feature gsize grid_centers box_corners box2d box2d_center pc_points height_pt label yaw out_feature = Inr g'
                   \<and> g' (i, j, 1) = ((fst box2d_center - gx) * - 1) * min sx sy
                   \<and> g' (i, j, 2) = ((snd box2d_center - gy) * - 1) * min sx sy)"
proof -
  from assms(5) have pos: "0 < gsize" by linarith
  then have ml: "max_length gsize = Inr (4 * (70 / real_of_int gsize))"
    by (simp add: max_length_eq)
  from generate_cell [OF not_skipped [OF assms(1)] ml assms(2) assms(3,4) [unfolded search_ranges]
      assms(5-8), of grid_centers box2d_center height_pt label out_feature]
  show ?thesis
    unfolding Let_def x_scale_def y_scale_def using ml by blast
qed

theorem clamping_threshold_two_cells_witness:
  "max_length 140 = Inr (4 * (70 / 140))
   \<and> (\<exists>g'. generate_out_feature 140 [] long_corners (box2d_of long_corners) (0, 0) long_points
              1 1 0 blank = Inr g'
          \<and> g' (67, 69, 1) = 2 \<and> g' (67, 69, 2) = 2 / 5)"
  using clamping_threshold_two_cells [where box_corners = long_corners and pc_points = long_points and yaw = 0
      and ny = 0 and i = 67 and j = 69 and gsize = 140 and box2d = "box2d_of long_corners"
      and gx = "5 / 2" and gy = "1 / 2" and box2d_center = "(0, 0)" and grid_centers = "[]" and height_pt = 1 and label = 1
      and out_feature = blank]
  by (auto simp add: long_num_points normalized_yaw_def search_ranges long_search_is long_search_js
      long_pixels long_covered)

subsection \<open>The frame of one box\<close>

lemma skipped_iff: "skipped cs pts l \<longleftrightarrow> num_points cs pts < 4 \<and> 0 \<le> l \<and> l \<le> 4"
  by (simp add: skipped_def)

lemma generate_error:
  assumes "generate_out_feature gsize gc cs b2 bc pts h l yaw g = Inl e"
  shows "e = ZeroDivisionError \<and> (gsize = 0 \<or> cos yaw = 0)"
proof (cases "gsize = 0")
  case True
  with assms show ?thesis by (simp add: generate_zero)
next
  case gs: False
  show ?thesis
  proof (cases "skipped cs pts l")
    case True
    with assms gs show ?thesis by (simp add: generate_skipped)
  next
    case ns: False
    show ?thesis
    proof (cases "cos yaw = 0")
      case True
      with assms show ?thesis
        by (simp add: generate_cos0 [OF gs ns True] split: if_splits)
    next
      case False
      from generate_written [OF gs ns False, of gc b2 bc h g] assms show ?thesis by auto
    qed
  qed
qed

lemma generate_frame:
  assumes "generate_out_feature gsize gc cs b2 bc pts h l yaw g = Inr g'"
    and "g' (a, b, c) \<noteq> g (a, b, c)"
  shows "a \<in> set (search_is gsize b2) \<and> b \<in> set (search_js gsize b2)
         \<and> in_grid gsize a b \<and> covered cs b2 gsize a b \<and> c < 8"
proof -
  have gs: "gsize \<noteq> 0" using assms(1) by (auto simp add: generate_zero)
  have ns: "\<not> skipped cs pts l" using assms gs by (auto simp add: generate_skipped)
  have cy: "cos yaw \<noteq> 0"
  proof
    assume "cos yaw = 0"
    from assms(1) have "g' = g"
      by (simp add: generate_cos0 [OF gs ns \<open>cos yaw = 0\<close>] split: if_splits)
    with assms(2) show False by simp
  qed
  from generate_written [OF gs ns cy, of gc b2 bc h g] assms(1)
  have "g' (a, b, c) =
          (if a \<in> set (search_is gsize b2) \<and> b \<in> set (search_js gsize b2)
              \<and> in_grid gsize a b \<and> covered cs b2 gsize a b \<and> c < 8
           then cell_value gsize bc h l (arctan (sin yaw / cos yaw)) (280 / \<bar>real_of_int gsize\<bar>) a b c
           else g (a, b, c))"
    by auto
  with assms(2) show ?thesis by (auto split: if_splits)
qed

lemma generate_all_outside:
  assumes "gsize \<noteq> 0"
    and "\<forall>i\<in>set (search_is gsize b2). \<forall>j\<in>set (search_js gsize b2). \<not> in_grid gsize i j"
  shows "generate_out_feature gsize gc cs b2 bc pts h l yaw g = Inr g"
proof (cases "skipped cs pts l")
  case True
  with assms(1) show ?thesis by (simp add: generate_skipped)
next
  case ns: False
  show ?thesis
  proof (cases "cos yaw = 0")
    case True
    from assms(2) show ?thesis by (simp add: generate_cos0 [OF assms(1) ns True])
  next
    case False
    from generate_written [OF assms(1) ns False, of gc b2 bc h g]
    obtain g' where g': "generate_out_feature gsize gc cs b2 bc pts h l yaw g = Inr g'"
      and v: "\<And>a b c. g' (a, b, c) =
          (if a \<in> set (search_is gsize b2) \<and> b \<in> set (search_js gsize b2)
              \<and> in_grid gsize a b \<and> covered cs b2 gsize a b \<and> c < 8
           then cell_value gsize bc h l (arctan (sin yaw / cos yaw)) (280 / \<bar>real_of_int gsize\<bar>) a b c
           else g (a, b, c))"
      by blast
    have "g' = g"
    proof
      fix x :: "int \<times> int \<times> nat"
      obtain a b c where x: "x = (a, b, c)" by (cases x) auto
      show "g' x = g x" unfolding x using assms(2) by (auto simp add: v)
    qed
    with g' show ?thesis by simp
  qed
qed

lemma covered_iff:
  "gsize \<noteq> 0 \<Longrightarrow> covered cs b2 gsize a b \<longleftrightarrow>
     (\<exists>gx gy. Pixel2pc a (real_of_int gsize) 70 = Inr gx \<and> Pixel2pc b (real_of_int gsize) 70 = Inr gy
              \<and> points_in_box2d cs b2 (gx, gy, 0))"
  by (simp add: covered_def Pixel2pc_Inr_iff)

text \<open>
  C8. If \<^verbatim>\<open>generate_out_feature\<close> returns a grid, every entry that differs from the
  grid it was given belongs to a cell of the search rectangle that lies within
  \<open>[0, size)\<close> on both axes and whose centre passes the 2D membership test (and to
  a channel 0..7): every other cell keeps all its values. Candidate cells outside
  \<open>[0, size)\<close> are passed over: when all of them are outside, the grid is returned
  as it was, whatever the yaw; and the only exception the function raises is the
  \<^verbatim>\<open>ZeroDivisionError\<close> of a zero size or a zero cosine, never one for an index.
\<close>
theorem rasteriser_frame:
  "(\<forall>g'. generate_out_feature gsize grid_centers box_corners box2d box2d_center pc_points
            height_pt label yaw out_feature = Inr g' \<longrightarrow>
      (\<forall>a b c. g' (a, b, c) \<noteq> out_feature (a, b, c) \<longrightarrow>
          a \<in> set (range_py (search_area_right_idx gsize box2d - 1) (search_area_left_idx gsize box2d + 1))
          \<and> b \<in> set (range_py (search_area_top_idx gsize box2d - 1) (search_area_bottom_idx gsize box2d + 1))
          \<and> 0 \<le> a \<and> a < gsize \<and> 0 \<le> b \<and> b < gsize
          \<and> (\<exists>gx gy. Pixel2pc a (real_of_int gsize) 70 = Inr gx
                     \<and> Pixel2pc b (real_of_int gsize) 70 = Inr gy
                     \<and> points_in_box2d box_corners box2d (gx, gy, 0))
          \<and> c < 8))
   \<and> (gsize \<noteq> 0
        \<and> (\<forall>i\<in>set (range_py (search_area_right_idx gsize box2d - 1) (search_area_left_idx gsize box2d + 1)).
            \<forall>j\<in>set (range_py (search_area_top_idx gsize box2d - 1) (search_area_bottom_idx gsize box2d + 1)).
              \<not> (0 \<le> i \<and> i < gsize \<and> 0 \<le> j \<and> j < gsize))
       \<longrightarrow> generate_out_feature gsize grid_centers box_corners box2d box2d_center pc_points
             height_pt label yaw out_feature = Inr out_feature)
   \<and> (\<forall>e. generate_out_feature gsize grid_centers box_corners box2d box2d_center pc_points
            height_pt label yaw out_feature = Inl e \<longrightarrow>
          e = ZeroDivisionError \<and> (gsize = 0 \<or> cos yaw = 0))"
proof (intro conjI allI impI)
  fix g' a b c
  assume r: "generate_out_feature gsize grid_centers box_corners box2d box2d_center pc_points
            height_pt label yaw out_feature = Inr g'"
    and d: "g' (a, b, c) \<noteq> out_feature (a, b, c)"
  from generate_frame [OF r d]
  have f: "a \<in> set (search_is gsize box2d)" "b \<in> set (search_js gsize box2d)"
    "in_grid gsize a b" "covered box_corners box2d gsize a b" "c < 8"
    by simp_all
  from f(3) have gs: "gsize \<noteq> 0" by (rule in_grid_nonzero)
  show "a \<in> set (range_py (search_area_right_idx gsize box2d - 1) (search_area_left_idx gsize box2d + 1))"
    using f(1) by (simp add: search_ranges)
  show "b \<in> set (range_py (search_area_top_idx gsize box2d - 1) (search_area_bottom_idx gsize box2d + 1))"
    using f(2) by (simp add: search_ranges)
  show "0 \<le> a" "a < gsize" "0 \<le> b" "b < gsize" using f(3) by (simp_all add: in_grid_def)
  show "\<exists>gx gy. Pixel2pc a (real_of_int gsize) 70 = Inr gx
                     \<and> Pixel2pc b (real_of_int gsize) 70 = Inr gy
                     \<and> points_in_box2d box_corners box2d (gx, gy, 0)"
    using f(4) by (simp only: covered_iff [OF gs])
  show "c < 8" by (rule f(5))
next
  assume "gsize \<noteq> 0
        \<and> (\<forall>i\<in>set (range_py (search_area_right_idx gsize box2d - 1) (search_area_left_idx gsize box2d + 1)).
            \<forall>j\<in>set (range_py (search_area_top_idx gsize box2d - 1) (search_area_bottom_idx gsize box2d + 1)).
              \<not> (0 \<le> i \<and> i < gsize \<and> 0 \<le> j \<and> j < gsize))"
  then show "generate_out_feature gsize grid_centers box_corners box2d box2d_center pc_points
             height_pt label yaw out_feature = Inr out_feature"
    by (intro generate_all_outside) (simp_all add: search_ranges in_grid_def)
next
  fix e
  assume "generate_out_feature gsize grid_centers box_corners box2d box2d_center pc_points
            height_pt label yaw out_feature = Inl e"
  then show "e = ZeroDivisionError" "gsize = 0 \<or> cos yaw = 0"
    using generate_error by blast+
qed

lemma far_search_is: "search_is 140 far_box2d = [- 34..- 30]"
  by (simp add: search_is_def far_box2d_def search_area_left_idx_def search_area_right_idx_def
      F2I_def inv_res_def box2d_left_def box2d_right_def col_min_def col_max_def range_py_def)

lemma long_not_skipped: "\<not> skipped long_corners long_points l"
  by (simp add: skipped_def long_num_points)

theorem rasteriser_frame_witness:
  "(\<exists>g'. generate_out_feature 140 [] long_corners (box2d_of long_corners) (0, 0) long_points
            1 1 0 blank = Inr g'
          \<and> g' (0, 0, 0) = blank (0, 0, 0))
   \<and> generate_out_feature 140 [] long_corners far_box2d (0, 0) long_points 1 1 (pi / 2) blank
       = Inr blank"
proof -
  from generate_written [of 140 long_corners long_points 1 0 "[]" "box2d_of long_corners" "(0, 0)" 1 blank]
  obtain g' where g': "generate_out_feature 140 [] long_corners (box2d_of long_corners) (0, 0)
      long_points 1 1 0 blank = Inr g'"
    by (auto simp add: long_not_skipped)
  note inside = rasteriser_frame [where gsize = 140 and grid_centers = "[]"
      and box_corners = long_corners and box2d = "box2d_of long_corners" and box2d_center = "(0, 0)"
      and pc_points = long_points and height_pt = 1 and label = 1 and yaw = 0
      and out_feature = blank, THEN conjunct1, rule_format, OF g']
  have "g' (0, 0, 0) = blank (0, 0, 0)"
  proof (rule ccontr)
    assume "g' (0, 0, 0) \<noteq> blank (0, 0, 0)"
    from inside [OF this] have "(0::int) \<in> set (search_is 140 (box2d_of long_corners))"
      by (simp only: search_ranges)
    then show False by (simp add: long_search_is)
  qed
  moreover
  note outside = rasteriser_frame [where gsize = 140 and grid_centers = "[]"
      and box_corners = long_corners and box2d = far_box2d and box2d_center = "(0, 0)"
      and pc_points = long_points and height_pt = 1 and label = 1 and yaw = "pi / 2"
      and out_feature = blank, THEN conjunct2, THEN conjunct1, rule_format]
  have "generate_out_feature 140 [] long_corners far_box2d (0, 0) long_points 1 1 (pi / 2) blank
       = Inr blank"
    by (rule outside) (simp add: search_ranges far_search_is)
  ultimately show ?thesis using g' by blast
qed

subsection \<open>The division in the heading normalisation\<close>

text \<open>
  C10. Line 412 divides by \<open>cos yaw\<close> without a guard, in every candidate cell that
  lies in the grid and before the membership test of line 414. For a box that reaches
  the cell loop (size other than 0, no early return): if \<open>cos yaw \<noteq> 0\<close> the function
  returns a grid; if \<open>cos yaw = 0\<close> it raises \<^verbatim>\<open>ZeroDivisionError\<close> exactly when some
  candidate cell lies in the grid, and the body of the loop raises it in every such
  cell, covered or not. So the error branch is unreachable only under \<open>cos yaw \<noteq> 0\<close>.
\<close>
theorem heading_division_precondition:
  assumes "gsize \<noteq> 0"
    and "\<not> (num_points box_corners pc_points < 4 \<and> 0 \<le> label \<and> label \<le> 4)"
  shows "(cos yaw \<noteq> 0 \<longrightarrow>
            (\<exists>g'. generate_out_feature gsize grid_centers box_corners box2d box2d_center pc_points
                     height_pt label yaw out_feature = Inr g'))
         \<and> (cos yaw = 0 \<longrightarrow>
              (generate_out_feature gsize grid_centers box_corners box2d box2d_center pc_points
                 height_pt label yaw out_feature = Inl ZeroDivisionError
               \<longleftrightarrow> (\<exists>i\<in>set (range_py (search_area_right_idx gsize box2d - 1)
                                    (search_area_left_idx gsize box2d + 1)).
                    \<exists>j\<in>set (range_py (search_area_top_idx gsize box2d - 1)
                                    (search_area_bottom_idx gsize box2d + 1)).
                      0 \<le> i \<and> i < gsize \<and> 0 \<le> j \<and> j < gsize)))
         \<and> (cos yaw = 0 \<longrightarrow>
              (\<forall>i j ml g. 0 \<le> i \<and> i < gsize \<and> 0 \<le> j \<and> j < gsize \<longrightarrow>
                 cell_body gsize box_corners box2d box2d_center height_pt label yaw ml i j g
                   = Inl ZeroDivisionError))"
proof (intro conjI impI)
  have ns: "\<not> skipped box_corners pc_points label" using assms(2) by (simp add: skipped_def)
  {
    assume "cos yaw \<noteq> 0"
    from generate_written [OF assms(1) ns this]
    show "\<exists>g'. generate_out_feature gsize grid_centers box_corners box2d box2d_center pc_points
                     height_pt label yaw out_feature = Inr g'"
      by blast
  }
  {
    assume c0: "cos yaw = 0"
    show "generate_out_feature gsize grid_centers box_corners box2d box2d_center pc_points
                 height_pt label yaw out_feature = Inl ZeroDivisionError
               \<longleftrightarrow> (\<exists>i\<in>set (range_py (search_area_right_idx gsize box2d - 1)
                                    (search_area_left_idx gsize box2d + 1)).
                    \<exists>j\<in>set (range_py (search_area_top_idx gsize box2d - 1)
                                    (search_area_bottom_idx gsize box2d + 1)).
                      0 \<le> i \<and> i < gsize \<and> 0 \<le> j \<and> j < gsize)"
      by (simp add: generate_cos0 [OF assms(1) ns c0] search_ranges in_grid_def)
    show "\<forall>i j ml g. 0 \<le> i \<and> i < gsize \<and> 0 \<le> j \<and> j < gsize \<longrightarrow>
                 cell_body gsize box_corners box2d box2d_center height_pt label yaw ml i j g
                   = Inl ZeroDivisionError"
      by (simp add: cell_body_cos0 [OF c0] in_grid_def)
  }
qed

theorem heading_division_precondition_witness:
  "generate_out_feature 140 [] long_corners (box2d_of long_corners) (0, 0) long_points 1 1
     (pi / 2) blank = Inl ZeroDivisionError
   \<and> (\<exists>g'. generate_out_feature 140 [] long_corners (box2d_of long_corners) (0, 0) long_points
              1 1 0 blank = Inr g')"
proof -
  have e: "\<exists>i\<in>set [66..73]. \<exists>j\<in>set [68..71]. 0 \<le> i \<and> i < 140 \<and> 0 \<le> j \<and> j < (140::int)"
    by (intro bexI [of _ 67] bexI [of _ 69]) simp_all
  from heading_division_precondition [where gsize = 140 and box_corners = long_corners
      and pc_points = long_points and label = 1 and yaw = "pi / 2" and grid_centers = "[]"
      and box2d = "box2d_of long_corners" and box2d_center = "(0, 0)" and height_pt = 1
      and out_feature = blank]
  have "generate_out_feature 140 [] long_corners (box2d_of long_corners) (0, 0) long_points 1 1
     (pi / 2) blank = Inl ZeroDivisionError"
    using e by (simp add: long_num_points search_ranges long_search_is long_search_js)
  moreover
  from heading_division_precondition [where gsize = 140 and box_corners = long_corners
      and pc_points = long_points and label = 1 and yaw = 0 and grid_centers = "[]"
      and box2d = "box2d_of long_corners" and box2d_center = "(0, 0)" and height_pt = 1
      and out_feature = blank]
  have "\<exists>g'. generate_out_feature 140 [] long_corners (box2d_of long_corners) (0, 0) long_points
              1 1 0 blank = Inr g'"
    by (simp add: long_num_points)
  ultimately show ?thesis by blast
qed

subsection \<open>The exceptions of create\_dataset\<close>

lemma str_split_nonempty: "str_split sep s \<noteq> []"
  by (induction s) (auto split: list.splits)

lemma token_error: "token nm k = Inl e \<Longrightarrow> e = IndexError"
  by (auto simp add: token_def Let_def split: if_splits)

lemma token_first: "\<exists>t. token nm 0 = Inr t"
  using str_split_nonempty [of "CHR ''.''" nm] by (simp add: token_def Let_def)

lemma label_of_name_error: "label_of_name nm = Inl e \<Longrightarrow> e = IndexError"
  by (auto simp add: label_of_name_def split: sum.splits if_splits dest: token_error)

lemma process_box_labelled:
  "label_of_name (name b) = Inr (Some l) \<Longrightarrow>
   process_box gsize gc pts b g =
     generate_out_feature gsize gc (corners b) (box2d_of (corners b))
       (mean_axis0 (box2d_of (corners b))) pts
       (linalg_norm (sub3 (corner0 (corners b)) (corner3 (corners b)))) l (orientation_yaw b) g"
  by (simp add: process_box_def Let_def)

lemma process_box_continue:
  "label_of_name (name b) = Inr None \<Longrightarrow> process_box gsize gc pts b g = Inr g"
  by (simp add: process_box_def)

lemma process_box_error:
  assumes "process_box gsize gc pts b g = Inl e"
  shows "e = IndexError \<or> e = ZeroDivisionError"
proof (cases "label_of_name (name b)")
  case (Inl x)
  with assms show ?thesis by (auto simp add: process_box_def dest: label_of_name_error)
next
  case (Inr r)
  show ?thesis
  proof (cases r)
    case None
    with Inr assms show ?thesis by (simp add: process_box_continue)
  next
    case (Some l)
    with Inr assms show ?thesis
      by (auto simp add: process_box_labelled dest: generate_error)
  qed
qed

lemma boxes_loop_error:
  "boxes_loop gsize gc pts bs g = Inl e \<Longrightarrow> e = IndexError \<or> e = ZeroDivisionError"
proof (induction bs arbitrary: g)
  case Nil
  then show ?case by simp
next
  case (Cons b bs)
  then show ?case
    by (auto split: sum.splits dest: process_box_error)
qed

lemma process_frame_error:
  "process_frame gsize gc f = Inl e \<Longrightarrow> e = IndexError \<or> e = ZeroDivisionError \<or> e = ValueError"
  by (auto simp add: process_frame_def zeros_def split: if_splits dest: boxes_loop_error)

lemma frames_loop_error:
  "snd (frames_loop gsize gc end_id fs data_id saved) = Some e \<Longrightarrow>
   e = IndexError \<or> e = ZeroDivisionError \<or> e = ValueError"
proof (induction fs arbitrary: data_id saved)
  case Nil
  then show ?case by simp
next
  case (Cons f fs)
  then show ?case
    by (auto split: sum.splits if_splits dest: process_frame_error)
qed

lemma create_dataset_body_error:
  "snd (create_dataset_body gsize grid_range end_id frames) = Some e \<Longrightarrow>
   e = IndexError \<or> e = ZeroDivisionError \<or> e = ValueError"
  by (auto simp add: create_dataset_body_def np_arange_def Let_def
      split: if_splits dest: frames_loop_error)

text \<open>
  C9. When width and height differ, \<^verbatim>\<open>create_dataset\<close> ends with the exception of
  line 131 whatever the frames are, with no grid saved: no frame is processed. When they
  are equal, it runs its body with \<^verbatim>\<open>size\<close> set to the common value, and no exception
  of that kind is raised (the body raises only \<^verbatim>\<open>IndexError\<close>,
  \<^verbatim>\<open>ZeroDivisionError\<close> or \<^verbatim>\<open>ValueError\<close>).
\<close>
theorem square_grid_check:
  "(width \<noteq> height \<longrightarrow>
      create_dataset width height grid_range end_id frames =
        ([], Some (Exception ''Currently only supported if width and height are equal'')))
   \<and> (width = height \<longrightarrow>
        create_dataset width height grid_range end_id frames =
          create_dataset_body width grid_range end_id frames
        \<and> (\<forall>msg. snd (create_dataset width height grid_range end_id frames)
                   \<noteq> Some (Exception msg)))"
  by (auto simp add: create_dataset_def dest: create_dataset_body_error)

theorem square_grid_check_witness:
  "create_dataset 140 672 70 None [example_frame ''vehicle.car''] =
     ([], Some (Exception ''Currently only supported if width and height are equal''))
   \<and> create_dataset 140 140 70 None [example_frame ''vehicle.car''] =
       create_dataset_body 140 70 None [example_frame ''vehicle.car'']
   \<and> (\<forall>msg. snd (create_dataset 140 140 70 None [example_frame ''vehicle.car''])
              \<noteq> Some (Exception msg))"
proof -
  have ne: "(140::int) \<noteq> 672" by simp
  from square_grid_check [of 140 672 70 None "[example_frame ''vehicle.car'']"] ne
  have a: "create_dataset 140 672 70 None [example_frame ''vehicle.car''] =
     ([], Some (Exception ''Currently only supported if width and height are equal''))"
    by blast
  from square_grid_check [of 140 140 70 None "[example_frame ''vehicle.car'']"]
  have b: "create_dataset 140 140 70 None [example_frame ''vehicle.car''] =
       create_dataset_body 140 70 None [example_frame ''vehicle.car'']
     \<and> (\<forall>msg. snd (create_dataset 140 140 70 None [example_frame ''vehicle.car''])
              \<noteq> Some (Exception msg))"
    by blast
  from a b show ?thesis by blast
qed

subsection \<open>Boxes without a recognised category\<close>

text \<open>
  C1, as stated, fails. The name \<^verbatim>\<open>vehicle.ego\<close> has the first token
  \<^verbatim>\<open>vehicle\<close> and a second token that matches none of the rules of lines 187-202, so
  its label is 0; the inner chain has no \<^verbatim>\<open>else\<close>, the box is not skipped, and with four
  points inside it cell (67, 69) of a blank grid is written: channel 0 becomes 1 and
  channel 4 holds the label 0.
\<close>
theorem unknown_vehicle_written_counterexample:
  "label_of_name ''vehicle.ego'' = Inr (Some 0)
   \<and> (\<exists>g'. process_box 140 [] long_points (long_box ''vehicle.ego'' 0) blank = Inr g'
          \<and> blank (67, 69, 0) = 0 \<and> g' (67, 69, 0) = 1 \<and> g' (67, 69, 4) = 0)"
proof -
  have l: "label_of_name (name (long_box ''vehicle.ego'' 0)) = Inr (Some 0)"
    by (simp add: long_box_def label_examples)
  have ny: "normalized_yaw 0 = Inr 0" by (simp add: normalized_yaw_def)
  from generate_cell [where cs = long_corners and pts = long_points and l = 0 and gsize = 140
      and ml = 2 and yaw = 0 and ny = 0 and i = 67 and j = 69 and ?b2.0 = "box2d_of long_corners"
      and gx = "5 / 2" and gy = "1 / 2" and gc = "[]" and bc = "mean_axis0 (box2d_of long_corners)"
      and h = "linalg_norm (sub3 (corner0 long_corners) (corner3 long_corners))" and g = blank,
      OF long_not_skipped max_length_140 ny]
  have "\<exists>g'. generate_out_feature 140 [] long_corners (box2d_of long_corners)
            (mean_axis0 (box2d_of long_corners)) long_points
            (linalg_norm (sub3 (corner0 long_corners) (corner3 long_corners))) 0 0 blank = Inr g'
          \<and> g' (67, 69, 0) = 1 \<and> g' (67, 69, 4) = 0"
    by (auto simp add: long_search_is long_search_js long_pixels long_covered)
  then show ?thesis
    using process_box_labelled [OF l, of 140 "[]" long_points blank]
    by (simp add: label_examples long_box_def blank_def)
qed

text \<open>
  C1, amended. A box whose first token is neither \<^verbatim>\<open>vehicle\<close> nor \<^verbatim>\<open>human\<close>
  takes the \<^verbatim>\<open>continue\<close> of line 210: it has no label and the grid is left as it was,
  \<^verbatim>\<open>generate_out_feature\<close> is not called. A box whose first token is \<^verbatim>\<open>vehicle\<close>
  and whose second token matches none of the vehicle rules keeps the label 0 and is
  passed to \<^verbatim>\<open>generate_out_feature\<close> with that label, like any labelled box.
\<close>
theorem unrecognised_first_token_skipped:
  "(\<forall>t0. token (name b) 0 = Inr t0 \<and> t0 \<noteq> ''vehicle'' \<and> t0 \<noteq> ''human'' \<longrightarrow>
       label_of_name (name b) = Inr None
       \<and> process_box gsize grid_centers pc_points b out_feature = Inr out_feature)
   \<and> (\<forall>t1. token (name b) 0 = Inr ''vehicle'' \<and> token (name b) 1 = Inr t1
          \<and> t1 \<notin> set [''car'', ''bus'', ''truck'', ''construction'', ''emergency'', ''trailer'',
                        ''bicycle'', ''motorcycle''] \<longrightarrow>
       label_of_name (name b) = Inr (Some 0)
       \<and> process_box gsize grid_centers pc_points b out_feature =
           generate_out_feature gsize grid_centers (corners b) (box2d_of (corners b))
             (mean_axis0 (box2d_of (corners b))) pc_points
             (linalg_norm (sub3 (corner0 (corners b)) (corner3 (corners b)))) 0
             (orientation_yaw b) out_feature)"
proof (intro conjI allI impI)
  fix t0
  assume a: "token (name b) 0 = Inr t0 \<and> t0 \<noteq> ''vehicle'' \<and> t0 \<noteq> ''human''"
  then show n: "label_of_name (name b) = Inr None"
    by (simp add: label_of_name_def)
  then show "process_box gsize grid_centers pc_points b out_feature = Inr out_feature"
    by (rule process_box_continue)
next
  fix t1
  assume a: "token (name b) 0 = Inr ''vehicle'' \<and> token (name b) 1 = Inr t1
          \<and> t1 \<notin> set [''car'', ''bus'', ''truck'', ''construction'', ''emergency'', ''trailer'',
                        ''bicycle'', ''motorcycle'']"
  then show l: "label_of_name (name b) = Inr (Some 0)"
    by (simp add: label_of_name_def)
  then show "process_box gsize grid_centers pc_points b out_feature =
           generate_out_feature gsize grid_centers (corners b) (box2d_of (corners b))
             (mean_axis0 (box2d_of (corners b))) pc_points
             (linalg_norm (sub3 (corner0 (corners b)) (corner3 (corners b)))) 0
             (orientation_yaw b) out_feature"
    by (rule process_box_labelled)
qed

theorem unrecognised_first_token_skipped_witness:
  "token ''movable_object.barrier'' 0 = Inr ''movable_object''
   \<and> label_of_name ''movable_object.barrier'' = Inr None
   \<and> process_box 140 [] long_points (long_box ''movable_object.barrier'' 0) blank = Inr blank
   \<and> token ''vehicle.ego'' 1 = Inr ''ego''
   \<and> process_box 140 [] long_points (long_box ''vehicle.ego'' 0) blank =
       generate_out_feature 140 [] long_corners (box2d_of long_corners)
         (mean_axis0 (box2d_of long_corners)) long_points
         (linalg_norm (sub3 (corner0 long_corners) (corner3 long_corners))) 0 0 blank"
proof -
  have t: "token ''movable_object.barrier'' 0 = Inr ''movable_object''"
    "token ''vehicle.ego'' 0 = Inr ''vehicle''" "token ''vehicle.ego'' 1 = Inr ''ego''"
    by (simp_all add: token_def)
  note skip = unrecognised_first_token_skipped [where b = "long_box ''movable_object.barrier'' 0"
      and gsize = 140 and grid_centers = "[]" and pc_points = long_points and out_feature = blank,
      THEN conjunct1, rule_format, of "''movable_object''"]
  note ego = unrecognised_first_token_skipped [where b = "long_box ''vehicle.ego'' 0"
      and gsize = 140 and grid_centers = "[]" and pc_points = long_points and out_feature = blank,
      THEN conjunct2, rule_format, of "''ego''"]
  have a: "label_of_name ''movable_object.barrier'' = Inr None
     \<and> process_box 140 [] long_points (long_box ''movable_object.barrier'' 0) blank = Inr blank"
    using skip by (simp add: long_box_def t)
  have prem: "token (name (long_box ''vehicle.ego'' 0)) 0 = Inr ''vehicle''
      \<and> token (name (long_box ''vehicle.ego'' 0)) 1 = Inr ''ego''
      \<and> ''ego'' \<notin> set [''car'', ''bus'', ''truck'', ''construction'', ''emergency'', ''trailer'',
                        ''bicycle'', ''motorcycle'']"
    by (simp add: long_box_def token_def)
  have b: "process_box 140 [] long_points (long_box ''vehicle.ego'' 0) blank =
       generate_out_feature 140 [] long_corners (box2d_of long_corners)
         (mean_axis0 (box2d_of long_corners)) long_points
         (linalg_norm (sub3 (corner0 long_corners) (corner3 long_corners))) 0 0 blank"
    using ego [OF prem] by (simp add: long_box_def)
  from a b t show ?thesis by blast
qed

subsection \<open>Evaluation of the third box\<close>

lemma turned_num_points: "num_points turned_corners turned_points = 4"
  by (simp add: num_points_def turned_corners_def turned_points_def points_in_box_def
      count_nonzero_def xyz_def sub3_def dot3_def)

lemma turned_box2d:
  "box2d_of turned_corners =
     \<lparr>row0 = (24, - 8), row1 = (22, - 6), row2 = (16, - 12), row3 = (18, - 14)\<rparr>"
  by (simp add: box2d_of_def turned_corners_def xy_def)

lemma turned_search_is: "search_is 140 (box2d_of turned_corners) = [45..54]"
  by (simp add: search_is_def turned_box2d search_area_left_idx_def search_area_right_idx_def
      F2I_def inv_res_def box2d_left_def box2d_right_def col_min_def col_max_def range_py_def)

lemma turned_search_js: "search_js 140 (box2d_of turned_corners) = [75..84]"
  by (simp add: search_js_def turned_box2d search_area_top_idx_def search_area_bottom_idx_def
      F2I_def inv_res_def box2d_top_def box2d_bottom_def col_min_def col_max_def range_py_def)

lemma turned_covered:
  "points_in_box2d turned_corners (box2d_of turned_corners) (45 / 2, - (17 / 2), 0)"
  by (simp add: points_in_box2d_def turned_box2d xy_def sub2_def dot2_def)

lemma turned_yaw:
  "cos (pi / 4) \<noteq> (0::real)" "arctan (sin (pi / 4) / cos (pi / 4)) = (pi / 4 :: real)"
  by (simp_all add: sin_45 cos_45 arctan_one)

subsection \<open>The values of one written cell\<close>

lemma xy_components: "fst (xy p) = fst p" "snd (xy p) = fst (snd p)"
  by (cases p, simp add: xy_def)+

lemma mean_axis0_box2d_of:
  "mean_axis0 (box2d_of cs) =
     ((fst (corner2 cs) + fst (corner3 cs) + fst (corner7 cs) + fst (corner6 cs)) / 4,
      (fst (snd (corner2 cs)) + fst (snd (corner3 cs)) + fst (snd (corner7 cs))
         + fst (snd (corner6 cs))) / 4)"
  by (simp add: mean_axis0_def box2d_of_def xy_components)

lemma linalg_norm_sub3:
  "linalg_norm (sub3 p q) =
     sqrt ((fst p - fst q)\<^sup>2 + (fst (snd p) - fst (snd q))\<^sup>2 + (snd (snd p) - snd (snd q))\<^sup>2)"
  by (cases p, cases q) (simp add: linalg_norm_def sub3_def power2_eq_square)

text \<open>
  C3. For a box that is rasterised (its name has a label, at least four points are
  inside it and the cosine of its yaw is not 0), take a candidate cell \<open>(i, j)\<close> of the
  search rectangle that lies in the grid and whose centre \<open>(gx, gy)\<close>, with
  \<open>gx = 70 - (i + 0.5) * (2 * 70 / size)\<close> and \<open>gy\<close> alike, passes the 2D membership
  test. After \<^verbatim>\<open>generate_out_feature\<close> the cell holds: 1 in channel 0;
  \<open>(cx - gx) * -1 * min sx sy\<close> in channel 1 and \<open>(cy - gy) * -1 * min sx sy\<close> in channel 2,
  where \<open>(cx, cy)\<close> is the mean of the x and y coordinates of the corners 2, 3, 7 and 6 and
  \<open>sx\<close>, \<open>sy\<close> are the clamping scales of lines 401-410 for the threshold of two cell
  widths; 1 in channel 3; the label in channel 4; the cosine and the sine of twice
  \<open>arctan (sin yaw / cos yaw)\<close> in channels 5 and 6; and the Euclidean distance between
  corner 0 and corner 3 in channel 7.
\<close>
theorem written_cell_channels:
  fixes b :: box and i j gsize label :: int
  defines "gx \<equiv> 70 - (real_of_int i + 0.5) * (2 * 70 / real_of_int gsize)"
    and "gy \<equiv> 70 - (real_of_int j + 0.5) * (2 * 70 / real_of_int gsize)"
    and "cx \<equiv> (fst (corner2 (corners b)) + fst (corner3 (corners b))
                 + fst (corner7 (corners b)) + fst (corner6 (corners b))) / 4"
    and "cy \<equiv> (fst (snd (corner2 (corners b))) + fst (snd (corner3 (corners b)))
                 + fst (snd (corner7 (corners b))) + fst (snd (corner6 (corners b)))) / 4"
    and "T \<equiv> 2 * (2 * 70 / real_of_int gsize)"
  defines "sx \<equiv> (if T < \<bar>cx - gx\<bar> then T / \<bar>cx - gx\<bar> else 1)"
    and "sy \<equiv> (if T < \<bar>cy - gy\<bar> then T / \<bar>cy - gy\<bar> else 1)"
    and "ny \<equiv> arctan (sin (orientation_yaw b) / cos (orientation_yaw b))"
  assumes "label_of_name (name b) = Inr (Some label)"
    and "4 \<le> num_points (corners b) pc_points"
    and "cos (orientation_yaw b) \<noteq> 0"
    and "i \<in> set (range_py (search_area_right_idx gsize (box2d_of (corners b)) - 1)
                     (search_area_left_idx gsize (box2d_of (corners b)) + 1))"
    and "j \<in> set (range_py (search_area_top_idx gsize (box2d_of (corners b)) - 1)
                     (search_area_bottom_idx gsize (box2d_of (corners b)) + 1))"
    and "0 \<le> i \<and> i < gsize \<and> 0 \<le> j \<and> j < gsize"
    and "points_in_box2d (corners b) (box2d_of (corners b)) (gx, gy, 0)"
  shows "\<exists>g'. process_box gsize grid_centers pc_points b out_feature = Inr g'
           \<and> g' (i, j, 0) = 1
           \<and> g' (i, j, 1) = ((cx - gx) * - 1) * min sx sy
           \<and> g' (i, j, 2) = ((cy - gy) * - 1) * min sx sy
           \<and> g' (i, j, 3) = 1
           \<and> g' (i, j, 4) = real_of_int label
           \<and> g' (i, j, 5) = cos (ny * 2)
           \<and> g' (i, j, 6) = sin (ny * 2)
           \<and> g' (i, j, 7) =
               sqrt ((fst (corner0 (corners b)) - fst (corner3 (corners b)))\<^sup>2
                     + (fst (snd (corner0 (corners b))) - fst (snd (corner3 (corners b))))\<^sup>2
                     + (snd (snd (corner0 (corners b))) - snd (snd (corner3 (corners b))))\<^sup>2)"
proof -
  from assms(14) have pos: "0 < gsize" by linarith
  then have ml: "max_length gsize = Inr T"
    by (simp add: max_length_eq T_def)
  have ny: "normalized_yaw (orientation_yaw b) = Inr ny"
    using assms(11) by (simp add: normalized_yaw_def ny_def)
  have px: "Pixel2pc i (real_of_int gsize) 70 = Inr gx"
    and py: "Pixel2pc j (real_of_int gsize) 70 = Inr gy"
    using pos by (simp_all add: Pixel2pc_Inr_iff grid_center_def gx_def gy_def)
  have c: "mean_axis0 (box2d_of (corners b)) = (cx, cy)"
    by (simp add: mean_axis0_box2d_of cx_def cy_def)
  have p: "process_box gsize grid_centers pc_points b out_feature =
          generate_out_feature gsize grid_centers (corners b) (box2d_of (corners b)) (cx, cy)
            pc_points (linalg_norm (sub3 (corner0 (corners b)) (corner3 (corners b)))) label
            (orientation_yaw b) out_feature"
    by (simp add: process_box_def assms(9) Let_def c)
  note cell = generate_cell [OF not_skipped [OF assms(10)] ml ny
      assms(12,13) [unfolded search_ranges] assms(14) px py assms(15), of grid_centers "(cx, cy)"
      "linalg_norm (sub3 (corner0 (corners b)) (corner3 (corners b)))" label out_feature,
      unfolded x_scale_def y_scale_def fst_conv snd_conv linalg_norm_sub3, folded sx_def sy_def]
  show ?thesis
    unfolding p linalg_norm_sub3 using cell by simp
qed

lemma sqrt_four: "sqrt 4 = (2::real)"
  using real_sqrt_abs [of 2] by simp

theorem written_cell_channels_witness:
  "\<exists>g'. process_box 140 [] turned_points turned_box blank = Inr g'
         \<and> g' (47, 78, 0) = 1 \<and> g' (47, 78, 1) = 2 \<and> g' (47, 78, 2) = 6 / 5
         \<and> g' (47, 78, 3) = 1 \<and> g' (47, 78, 4) = 2 \<and> g' (47, 78, 5) = 0
         \<and> g' (47, 78, 6) = 1 \<and> g' (47, 78, 7) = 2"
proof -
  have h1: "label_of_name (name turned_box) = Inr (Some 2)"
    by (simp add: turned_box_def label_examples)
  have h2: "4 \<le> num_points (corners turned_box) turned_points"
    by (simp add: turned_box_def turned_num_points)
  have h3: "cos (orientation_yaw turned_box) \<noteq> 0"
    by (simp add: turned_box_def turned_yaw)
  have h4: "47 \<in> set (range_py (search_area_right_idx 140 (box2d_of (corners turned_box)) - 1)
                     (search_area_left_idx 140 (box2d_of (corners turned_box)) + 1))"
    by (simp add: turned_box_def search_ranges turned_search_is)
  have h5: "78 \<in> set (range_py (search_area_top_idx 140 (box2d_of (corners turned_box)) - 1)
                     (search_area_bottom_idx 140 (box2d_of (corners turned_box)) + 1))"
    by (simp add: turned_box_def search_ranges turned_search_js)
  have h6: "(0::int) \<le> 47 \<and> (47::int) < 140 \<and> (0::int) \<le> 78 \<and> (78::int) < 140"
    by simp
  have h7: "points_in_box2d (corners turned_box) (box2d_of (corners turned_box))
      (70 - (real_of_int 47 + 0.5) * (2 * 70 / real_of_int 140),
       70 - (real_of_int 78 + 0.5) * (2 * 70 / real_of_int 140), 0)"
    by (simp add: turned_box_def points_in_box2d_def turned_box2d xy_def sub2_def dot2_def)
  from written_cell_channels [where b = turned_box and label = 2 and pc_points = turned_points
      and i = 47 and j = 78 and gsize = 140 and grid_centers = "[]" and out_feature = blank,
      OF h1 h2 h3 h4 h5 h6 h7]
  obtain g' where g: "process_box 140 [] turned_points turned_box blank = Inr g'"
    and v: "g' (47, 78, 0) = 1"
      "g' (47, 78, 1) = 2" "g' (47, 78, 2) = 6 / 5" "g' (47, 78, 3) = 1" "g' (47, 78, 4) = 2"
      "g' (47, 78, 5) = 0" "g' (47, 78, 6) = 1" "g' (47, 78, 7) = 2"
    by (auto simp add: turned_box_def turned_corners_def turned_yaw sqrt_four)
  then show ?thesis by blast
qed

subsection \<open>The 3D membership test\<close>

lemma points_in_box_map: "points_in_box cs pts = map (inside3 cs) pts"
  by (simp add: points_in_box_def inside3_def edge_i_def edge_j_def edge_k_def Let_def)

lemma points_in_box_single: "points_in_box cs [p] = [b] \<longleftrightarrow> inside3 cs p = b"
  by (simp add: points_in_box_map)

lemma dot3_sub3: "dot3 a (sub3 p q) = dot3 a p - dot3 a q"
  by (cases a, cases p, cases q) (simp add: dot3_def sub3_def algebra_simps)

lemma dot3_add3: "dot3 a (add3 p q) = dot3 a p + dot3 a q"
  by (cases a, cases p, cases q) (simp add: dot3_def add3_def algebra_simps)

lemma dot3_smul3: "dot3 a (smul3 r p) = r * dot3 a p"
  by (cases a, cases p) (simp add: dot3_def smul3_def algebra_simps)

lemma dot3_commute: "dot3 a b = dot3 b a"
  by (cases a, cases b) (simp add: dot3_def algebra_simps)

lemma dot3_self_nonneg: "0 \<le> dot3 a a"
  by (cases a) (simp add: dot3_def)

lemma inside3_alt:
  "inside3 cs p \<longleftrightarrow>
     (0 \<le> dot3 (edge_i cs) p - dot3 (edge_i cs) (corner0 cs)
        \<and> dot3 (edge_i cs) p - dot3 (edge_i cs) (corner0 cs) \<le> dot3 (edge_i cs) (edge_i cs))
     \<and> (0 \<le> dot3 (edge_j cs) p - dot3 (edge_j cs) (corner0 cs)
        \<and> dot3 (edge_j cs) p - dot3 (edge_j cs) (corner0 cs) \<le> dot3 (edge_j cs) (edge_j cs))
     \<and> (0 \<le> dot3 (edge_k cs) p - dot3 (edge_k cs) (corner0 cs)
        \<and> dot3 (edge_k cs) p - dot3 (edge_k cs) (corner0 cs) \<le> dot3 (edge_k cs) (edge_k cs))"
  by (simp add: inside3_def dot3_sub3)

lemma corner_dots:
  "dot3 a (corner4 cs) = dot3 a (corner0 cs) + dot3 a (edge_i cs)"
  "dot3 a (corner1 cs) = dot3 a (corner0 cs) + dot3 a (edge_j cs)"
  "dot3 a (corner3 cs) = dot3 a (corner0 cs) + dot3 a (edge_k cs)"
  by (simp_all add: edge_i_def edge_j_def edge_k_def dot3_sub3)

lemma box_corner_dots:
  assumes "is_box cs"
  shows "dot3 a (corner2 cs) = dot3 a (corner0 cs) + dot3 a (edge_j cs) + dot3 a (edge_k cs)"
    and "dot3 a (corner5 cs) = dot3 a (corner0 cs) + dot3 a (edge_i cs) + dot3 a (edge_j cs)"
    and "dot3 a (corner6 cs) =
           dot3 a (corner0 cs) + dot3 a (edge_i cs) + dot3 a (edge_j cs) + dot3 a (edge_k cs)"
    and "dot3 a (corner7 cs) = dot3 a (corner0 cs) + dot3 a (edge_i cs) + dot3 a (edge_k cs)"
proof -
  from assms have c:
    "corner2 cs = add3 (add3 (corner0 cs) (edge_j cs)) (edge_k cs)"
    "corner5 cs = add3 (add3 (corner0 cs) (edge_i cs)) (edge_j cs)"
    "corner6 cs = add3 (add3 (add3 (corner0 cs) (edge_i cs)) (edge_j cs)) (edge_k cs)"
    "corner7 cs = add3 (add3 (corner0 cs) (edge_i cs)) (edge_k cs)"
    by (simp_all add: is_box_def)
  show "dot3 a (corner2 cs) = dot3 a (corner0 cs) + dot3 a (edge_j cs) + dot3 a (edge_k cs)"
    by (subst c(1)) (simp add: dot3_add3)
  show "dot3 a (corner5 cs) = dot3 a (corner0 cs) + dot3 a (edge_i cs) + dot3 a (edge_j cs)"
    by (subst c(2)) (simp add: dot3_add3)
  show "dot3 a (corner6 cs) =
           dot3 a (corner0 cs) + dot3 a (edge_i cs) + dot3 a (edge_j cs) + dot3 a (edge_k cs)"
    by (subst c(3)) (simp add: dot3_add3)
  show "dot3 a (corner7 cs) = dot3 a (corner0 cs) + dot3 a (edge_i cs) + dot3 a (edge_k cs)"
    by (subst c(4)) (simp add: dot3_add3)
qed

lemma box_orthogonal:
  assumes "is_box cs"
  shows "dot3 (edge_i cs) (edge_j cs) = 0" "dot3 (edge_i cs) (edge_k cs) = 0"
    "dot3 (edge_j cs) (edge_i cs) = 0" "dot3 (edge_j cs) (edge_k cs) = 0"
    "dot3 (edge_k cs) (edge_i cs) = 0" "dot3 (edge_k cs) (edge_j cs) = 0"
  using assms dot3_commute [of "edge_j cs" "edge_i cs"] dot3_commute [of "edge_k cs" "edge_i cs"]
    dot3_commute [of "edge_k cs" "edge_j cs"]
  by (simp_all add: is_box_def)

lemma box_edges_positive:
  assumes "is_box cs"
  shows "0 < dot3 (edge_i cs) (edge_i cs)" "0 < dot3 (edge_j cs) (edge_j cs)"
    "0 < dot3 (edge_k cs) (edge_k cs)"
  using assms dot3_self_nonneg [of "edge_i cs"] dot3_self_nonneg [of "edge_j cs"]
    dot3_self_nonneg [of "edge_k cs"]
  by (simp_all add: is_box_def)

lemma corner_inside:
  assumes "is_box cs" and "k < 8"
  shows "inside3 cs (corner_list cs ! k)"
proof -
  note d = corner_dots box_corner_dots [OF assms(1)] box_orthogonal [OF assms(1)]
  note e = dot3_self_nonneg [of "edge_i cs"] dot3_self_nonneg [of "edge_j cs"]
    dot3_self_nonneg [of "edge_k cs"]
  from assms(2) have "k = 0 \<or> k = 1 \<or> k = 2 \<or> k = 3 \<or> k = 4 \<or> k = 5 \<or> k = 6 \<or> k = 7"
    by arith
  then show ?thesis
    using e by (auto simp add: corner_list_def inside3_alt d)
qed

lemma centroid_inside:
  assumes "is_box cs"
  shows "inside3 cs (centroid cs)"
proof -
  note d = corner_dots box_corner_dots [OF assms(1)] box_orthogonal [OF assms(1)]
  have "dot3 (edge_i cs) (centroid cs) - dot3 (edge_i cs) (corner0 cs) = dot3 (edge_i cs) (edge_i cs) / 2"
    "dot3 (edge_j cs) (centroid cs) - dot3 (edge_j cs) (corner0 cs) = dot3 (edge_j cs) (edge_j cs) / 2"
    "dot3 (edge_k cs) (centroid cs) - dot3 (edge_k cs) (corner0 cs) = dot3 (edge_k cs) (edge_k cs) / 2"
    by (simp_all add: centroid_def dot3_smul3 dot3_add3 d add_divide_distrib)
  then show ?thesis
    using dot3_self_nonneg [of "edge_i cs"] dot3_self_nonneg [of "edge_j cs"]
      dot3_self_nonneg [of "edge_k cs"]
    by (simp add: inside3_alt)
qed

lemma half_between:
  fixes x y c E :: real
  assumes "0 \<le> x - c \<and> x - c \<le> E" and "0 \<le> y - c \<and> y - c \<le> E"
  shows "0 \<le> (x + y) / 2 - c \<and> (x + y) / 2 - c \<le> E"
  using assms by (simp add: field_simps)

lemma midpoint_inside:
  assumes "inside3 cs p" and "inside3 cs q"
  shows "inside3 cs (midpoint3 p q)"
proof -
  have m: "dot3 a (midpoint3 p q) = (dot3 a p + dot3 a q) / 2" for a
    by (simp add: midpoint3_def dot3_smul3 dot3_add3)
  from assms have p: "0 \<le> dot3 (edge_i cs) p - dot3 (edge_i cs) (corner0 cs)
        \<and> dot3 (edge_i cs) p - dot3 (edge_i cs) (corner0 cs) \<le> dot3 (edge_i cs) (edge_i cs)"
      "0 \<le> dot3 (edge_j cs) p - dot3 (edge_j cs) (corner0 cs)
        \<and> dot3 (edge_j cs) p - dot3 (edge_j cs) (corner0 cs) \<le> dot3 (edge_j cs) (edge_j cs)"
      "0 \<le> dot3 (edge_k cs) p - dot3 (edge_k cs) (corner0 cs)
        \<and> dot3 (edge_k cs) p - dot3 (edge_k cs) (corner0 cs) \<le> dot3 (edge_k cs) (edge_k cs)"
    and q: "0 \<le> dot3 (edge_i cs) q - dot3 (edge_i cs) (corner0 cs)
        \<and> dot3 (edge_i cs) q - dot3 (edge_i cs) (corner0 cs) \<le> dot3 (edge_i cs) (edge_i cs)"
      "0 \<le> dot3 (edge_j cs) q - dot3 (edge_j cs) (corner0 cs)
        \<and> dot3 (edge_j cs) q - dot3 (edge_j cs) (corner0 cs) \<le> dot3 (edge_j cs) (edge_j cs)"
      "0 \<le> dot3 (edge_k cs) q - dot3 (edge_k cs) (corner0 cs)
        \<and> dot3 (edge_k cs) q - dot3 (edge_k cs) (corner0 cs) \<le> dot3 (edge_k cs) (edge_k cs)"
    unfolding inside3_alt by blast+
  show ?thesis
    unfolding inside3_alt m
    by (intro conjI half_between [OF p(1) q(1)] half_between [OF p(2) q(2)]
        half_between [OF p(3) q(3)])
qed

lemma beyond_edge:
  assumes "inside3 cs q" and "1 < \<bar>t\<bar>" and "0 < dot3 e e"
    and "e = edge_i cs \<or> e = edge_j cs \<or> e = edge_k cs"
  shows "\<not> inside3 cs (add3 q (smul3 t e))"
proof -
  let ?E = "dot3 e e"
  let ?v = "dot3 e q - dot3 e (corner0 cs)"
  from assms(1,4) have v: "0 \<le> ?v" "?v \<le> ?E" by (auto simp add: inside3_alt)
  have out: "?v + t * ?E < 0 \<or> ?E < ?v + t * ?E"
  proof (cases "1 < t")
    case True
    then have "1 * ?E < t * ?E" using assms(3) by (simp only: mult_strict_right_mono)
    with v(1) show ?thesis by simp
  next
    case False
    with assms(2) have "t < - 1" by linarith
    then have "t * ?E < - 1 * ?E" using assms(3) by (simp only: mult_strict_right_mono)
    with v(2) show ?thesis by simp
  qed
  have "dot3 e (add3 q (smul3 t e)) - dot3 e (corner0 cs) = ?v + t * ?E"
    by (simp add: dot3_add3 dot3_smul3)
  with out assms(4) show ?thesis
    by (auto simp add: inside3_alt)
qed

lemma turned_is_box: "is_box turned_corners"
  by (simp add: is_box_def edge_i_def edge_j_def edge_k_def turned_corners_def sub3_def dot3_def
      add3_def)

lemma points_in_box_edges:
  assumes "is_box cs"
  shows "points_in_box cs [centroid cs] = [True]
    \<and> (\<forall>k l. k < 8 \<and> l < 8 \<longrightarrow>
          points_in_box cs [midpoint3 (corner_list cs ! k) (corner_list cs ! l)] = [True])
    \<and> (\<forall>q t. points_in_box cs [q] = [True] \<and> 1 < \<bar>t\<bar> \<longrightarrow>
          points_in_box cs [add3 q (smul3 t (edge_i cs))] = [False]
          \<and> points_in_box cs [add3 q (smul3 t (edge_j cs))] = [False]
          \<and> points_in_box cs [add3 q (smul3 t (edge_k cs))] = [False])
    \<and> (\<forall>pts. points_in_box cs pts =
          map (\<lambda>pt.
                 (0 \<le> dot3 (edge_i cs) (sub3 pt (corner0 cs))
                    \<and> dot3 (edge_i cs) (sub3 pt (corner0 cs)) \<le> dot3 (edge_i cs) (edge_i cs))
                 \<and> (0 \<le> dot3 (edge_j cs) (sub3 pt (corner0 cs))
                    \<and> dot3 (edge_j cs) (sub3 pt (corner0 cs)) \<le> dot3 (edge_j cs) (edge_j cs))
                 \<and> (0 \<le> dot3 (edge_k cs) (sub3 pt (corner0 cs))
                    \<and> dot3 (edge_k cs) (sub3 pt (corner0 cs)) \<le> dot3 (edge_k cs) (edge_k cs)))
              pts)"
proof (intro conjI allI impI)
  show "points_in_box cs [centroid cs] = [True]"
    by (simp add: points_in_box_single centroid_inside [OF assms])
next
  fix k l :: nat
  assume "k < 8 \<and> l < 8"
  then have "inside3 cs (midpoint3 (corner_list cs ! k) (corner_list cs ! l))"
    by (intro midpoint_inside corner_inside [OF assms]) simp_all
  then show "points_in_box cs [midpoint3 (corner_list cs ! k) (corner_list cs ! l)] = [True]"
    by (simp add: points_in_box_single)
next
  fix q :: vec3 and t :: real
  assume "points_in_box cs [q] = [True] \<and> 1 < \<bar>t\<bar>"
  then have q: "inside3 cs q" and t: "1 < \<bar>t\<bar>" by (simp_all add: points_in_box_single)
  note pos = box_edges_positive [OF assms]
  show "points_in_box cs [add3 q (smul3 t (edge_i cs))] = [False]"
    using beyond_edge [OF q t pos(1)] by (simp add: points_in_box_single)
  show "points_in_box cs [add3 q (smul3 t (edge_j cs))] = [False]"
    using beyond_edge [OF q t pos(2)] by (simp add: points_in_box_single)
  show "points_in_box cs [add3 q (smul3 t (edge_k cs))] = [False]"
    using beyond_edge [OF q t pos(3)] by (simp add: points_in_box_single)
next
  fix pts
  show "points_in_box cs pts =
          map (\<lambda>pt.
                 (0 \<le> dot3 (edge_i cs) (sub3 pt (corner0 cs))
                    \<and> dot3 (edge_i cs) (sub3 pt (corner0 cs)) \<le> dot3 (edge_i cs) (edge_i cs))
                 \<and> (0 \<le> dot3 (edge_j cs) (sub3 pt (corner0 cs))
                    \<and> dot3 (edge_j cs) (sub3 pt (corner0 cs)) \<le> dot3 (edge_j cs) (edge_j cs))
                 \<and> (0 \<le> dot3 (edge_k cs) (sub3 pt (corner0 cs))
                    \<and> dot3 (edge_k cs) (sub3 pt (corner0 cs)) \<le> dot3 (edge_k cs) (edge_k cs)))
              pts"
    by (simp add: points_in_box_map inside3_def)
qed

text \<open>
  C6. For a box whose edge vectors corner4 - corner0, corner1 - corner0 and
  corner3 - corner0 are mutually orthogonal and not of length 0 (with its other corners
  in the order of \<open>is_box\<close>), \<^verbatim>\<open>points_in_box\<close> returns true for the centroid of the
  box and for the midpoint of any two of its corners, and false for every point got
  from a point it accepts by a translation along one of the three edges by more than
  that edge's length (\<open>t\<close> times the edge vector with \<open>\<bar>t\<bar> > 1\<close>). For any points, the
  mask holds true at a point exactly when each of the three scalar products of
  (point - corner0) with an edge vector lies in the closed interval from 0 to the
  scalar product of that edge with itself.
\<close>
theorem points_in_box_geometry:
  assumes "is_box cs"
  shows "points_in_box cs [centroid cs] = [True]
    \<and> (\<forall>k l. k < 8 \<and> l < 8 \<longrightarrow>
          points_in_box cs [midpoint3 (corner_list cs ! k) (corner_list cs ! l)] = [True])
    \<and> (\<forall>q t. points_in_box cs [q] = [True] \<and> 1 < \<bar>t\<bar> \<longrightarrow>
          points_in_box cs [add3 q (smul3 t (sub3 (corner4 cs) (corner0 cs)))] = [False]
          \<and> points_in_box cs [add3 q (smul3 t (sub3 (corner1 cs) (corner0 cs)))] = [False]
          \<and> points_in_box cs [add3 q (smul3 t (sub3 (corner3 cs) (corner0 cs)))] = [False])
    \<and> (\<forall>pts. points_in_box cs pts =
          map (\<lambda>pt.
                 (0 \<le> dot3 (sub3 (corner4 cs) (corner0 cs)) (sub3 pt (corner0 cs))
                    \<and> dot3 (sub3 (corner4 cs) (corner0 cs)) (sub3 pt (corner0 cs))
                        \<le> dot3 (sub3 (corner4 cs) (corner0 cs)) (sub3 (corner4 cs) (corner0 cs)))
                 \<and> (0 \<le> dot3 (sub3 (corner1 cs) (corner0 cs)) (sub3 pt (corner0 cs))
                    \<and> dot3 (sub3 (corner1 cs) (corner0 cs)) (sub3 pt (corner0 cs))
                        \<le> dot3 (sub3 (corner1 cs) (corner0 cs)) (sub3 (corner1 cs) (corner0 cs)))
                 \<and> (0 \<le> dot3 (sub3 (corner3 cs) (corner0 cs)) (sub3 pt (corner0 cs))
                    \<and> dot3 (sub3 (corner3 cs) (corner0 cs)) (sub3 pt (corner0 cs))
                        \<le> dot3 (sub3 (corner3 cs) (corner0 cs)) (sub3 (corner3 cs) (corner0 cs))))
              pts)"
  using points_in_box_edges [OF assms] unfolding edge_i_def edge_j_def edge_k_def .

theorem points_in_box_geometry_witness:
  "is_box turned_corners
   \<and> points_in_box turned_corners [centroid turned_corners] = [True]
   \<and> points_in_box turned_corners
        [midpoint3 (corner_list turned_corners ! 1) (corner_list turned_corners ! 6)] = [True]
   \<and> points_in_box turned_corners [(20, - 10, 1)] = [True]
   \<and> points_in_box turned_corners [add3 (20, - 10, 1) (smul3 (3 / 2) (sub3 (corner1 turned_corners) (corner0 turned_corners)))]
       = [False]
   \<and> points_in_box turned_corners [add3 (20, - 10, 1) (smul3 (- 2) (sub3 (corner4 turned_corners) (corner0 turned_corners)))]
       = [False]"
proof -
  note g = points_in_box_geometry [OF turned_is_box]
  have a: "points_in_box turned_corners [centroid turned_corners] = [True]"
    using g by (rule conjunct1)
  have b: "points_in_box turned_corners
        [midpoint3 (corner_list turned_corners ! 1) (corner_list turned_corners ! 6)] = [True]"
    using g [THEN conjunct2, THEN conjunct1, rule_format, of 1 6] by simp
  have c: "points_in_box turned_corners [(20, - 10, 1)] = [True]"
    by (simp add: points_in_box_def turned_corners_def sub3_def dot3_def)
  have d: "points_in_box turned_corners
       [add3 (20, - 10, 1) (smul3 (3 / 2) (sub3 (corner1 turned_corners) (corner0 turned_corners)))] = [False]"
    using g [THEN conjunct2, THEN conjunct2, THEN conjunct1, rule_format, of "(20, - 10, 1)" "3 / 2"] c
    by simp
  have e: "points_in_box turned_corners
       [add3 (20, - 10, 1) (smul3 (- 2) (sub3 (corner4 turned_corners) (corner0 turned_corners)))] = [False]"
    using g [THEN conjunct2, THEN conjunct2, THEN conjunct1, rule_format, of "(20, - 10, 1)" "- 2"] c
    by simp
  from turned_is_box a b c d e show ?thesis by blast
qed

end
